theory Spec2Isabelle
  imports Complex_Main "HOL-Library.Word"
begin

unbundle bit_operations_syntax

section \<open>Data of the OpenXR program\<close>

text \<open>
  The embedding follows \<^verbatim>\<open>openxr_program.cpp\<close>: the session state machine
  (\<^verbatim>\<open>PollEvents\<close>, \<^verbatim>\<open>HandleSessionStateChangedEvent\<close>), the input relay
  (\<^verbatim>\<open>PollActions\<close>) and the frame compositor (\<^verbatim>\<open>RenderFrame\<close>,
  \<^verbatim>\<open>RenderLayer\<close>).

  Handles are 64-bit values, \<^verbatim>\<open>XrBool32\<close> is a 32-bit value compared with
  \<^verbatim>\<open>XR_TRUE\<close>, \<^verbatim>\<open>XrResult\<close> is a signed integer. A \<^verbatim>\<open>float\<close> is modelled by
  the real number it denotes (finite, not NaN). The only float arithmetic of these
  functions computes the hand scale, and is rounded to binary32; the values the theorems
  speak of are copied, never computed.
\<close>

type_synonym XrResult = int
type_synonym XrBool32 = "32 word"
type_synonym XrHandle = "64 word"
type_synonym XrTime = int
type_synonym cfloat = real

type_synonym XrVector2f = "cfloat \<times> cfloat"
type_synonym XrVector3f = "cfloat \<times> cfloat \<times> cfloat"
type_synonym XrQuaternionf = "cfloat \<times> cfloat \<times> cfloat \<times> cfloat"
type_synonym XrFovf = "cfloat \<times> cfloat \<times> cfloat \<times> cfloat"
type_synonym cxrMatrix34 = "cfloat list"

text \<open>
  Modelled from the spec: the OpenXR headers are not under src/. Their constants are given
  the values the OpenXR API fixes; the theorems use of them only that \<^verbatim>\<open>XR_TRUE\<close> and
  \<^verbatim>\<open>XR_FALSE\<close> differ and that \<^verbatim>\<open>XR_SUCCESS\<close> and \<^verbatim>\<open>XR_EVENT_UNAVAILABLE\<close>
  differ and are not failures.
\<close>

definition XR_NULL_HANDLE :: XrHandle where
  "XR_NULL_HANDLE = 0"

definition XR_TRUE :: XrBool32 where
  "XR_TRUE = 1"

definition XR_FALSE :: XrBool32 where
  "XR_FALSE = 0"

definition XR_SUCCESS :: XrResult where
  "XR_SUCCESS = 0"

definition XR_EVENT_UNAVAILABLE :: XrResult where
  "XR_EVENT_UNAVAILABLE = 4"

text \<open>
  Modelled from the spec: the macros \<^verbatim>\<open>XR_FAILED\<close> and \<^verbatim>\<open>XR_UNQUALIFIED_SUCCESS\<close>
  of the OpenXR headers are not under src/. A required runtime call fails when its return
  code is an error code (negative); zero is the unqualified success.
\<close>

definition XR_FAILED :: "XrResult \<Rightarrow> bool" where
  "XR_FAILED r = (r < 0)"

definition XR_UNQUALIFIED_SUCCESS :: "XrResult \<Rightarrow> bool" where
  "XR_UNQUALIFIED_SUCCESS r = (r = 0)"

datatype XrSessionState =
    XR_SESSION_STATE_UNKNOWN
  | XR_SESSION_STATE_IDLE
  | XR_SESSION_STATE_READY
  | XR_SESSION_STATE_SYNCHRONIZED
  | XR_SESSION_STATE_VISIBLE
  | XR_SESSION_STATE_FOCUSED
  | XR_SESSION_STATE_STOPPING
  | XR_SESSION_STATE_LOSS_PENDING
  | XR_SESSION_STATE_EXITING

record XrEventDataSessionStateChanged =
  session :: XrHandle
  state :: XrSessionState
  time :: XrTime

datatype XrEvent =
    EventDataBuffer
  | EventsLost nat
  | InstanceLossPending XrTime
  | SessionStateChanged XrEventDataSessionStateChanged
  | ControllerStateChanged
  | InteractionProfileChanged
  | ReferenceSpaceChangePending
  | OtherEvent int

record XrPosef =
  orientation :: XrQuaternionf
  position :: XrVector3f

record XrView =
  view_pose :: XrPosef
  view_fov :: XrFovf

record XrSpaceLocation =
  locationFlags :: "64 word"
  loc_pose :: XrPosef

record XrSpaceVelocity =
  linearVelocity :: XrVector3f
  angularVelocity :: XrVector3f

record Swapchain =
  handle :: XrHandle
  width :: int
  height :: int

record XrSwapchainSubImage =
  swapchain :: XrHandle
  imageRect_offset :: "int \<times> int"
  imageRect_extent :: "int \<times> int"

record XrCompositionLayerProjectionView =
  plv_pose :: XrPosef
  plv_fov :: XrFovf
  subImage :: XrSwapchainSubImage

record XrCompositionLayerProjection =
  layer_space :: XrHandle
  viewCount :: nat
  layer_views :: "XrCompositionLayerProjectionView list"

record cxrVideoFrame =
  texture :: XrHandle

record cxrFramesLatched =
  poseMatrix :: cxrMatrix34
  frames :: "nat \<Rightarrow> cxrVideoFrame"

record cxrControllerTrackingState =
  booleanComps :: "64 word"
  scalarComps :: "nat \<Rightarrow> cfloat"

record cxrVRTrackingState =
  controller :: "nat \<Rightarrow> cxrControllerTrackingState"

record XrFrameEndInfo =
  displayTime :: XrTime
  environmentBlendMode :: int
  useHeadposeExt :: int
  gsIndex :: int
  layers :: "XrCompositionLayerProjection list"

datatype Level = Verbose | Info | Warning | Error

datatype action =
    grabAction | poseAction | vibrateAction | quitAction | touchpadAction | homeAction
  | backAction | sideAction | triggerAction | joystickAction | batteryAction
  | RockerTouchAction | TriggerTouchAction | ThumbrestTouchAction | GripAction
  | AAction | BAction | XAction | YAction
  | ATouchAction | BTouchAction | XTouchAction | YTouchAction

text \<open>
  The calls the program makes on its collaborators (the runtime, the graphics plugin, the
  CloudXR client and the log), in the order it makes them. A \<^verbatim>\<open>Log::Write\<close> is
  recorded with its level and its format string. The state queries \<^verbatim>\<open>xrPollEvent\<close>
  and \<^verbatim>\<open>xrGetActionState*\<close> are not recorded: they appear through their answers.
\<close>

datatype call =
    Log_Write Level string
  | xrBeginSession XrHandle
  | xrEndSession XrHandle
  | xrSyncActions
  | xrApplyHapticFeedback nat
  | xrRequestExitSession XrHandle
  | SetTrackingState cxrVRTrackingState
  | xrWaitFrame
  | xrBeginFrame
  | xrLocateViews XrTime
  | xrLocateSpace XrHandle XrHandle XrTime
  | SetSenserPoseState XrPosef XrVector3f XrVector3f "XrPosef list"
  | LatchFrame
  | xrAcquireSwapchainImage XrHandle
  | xrWaitSwapchainImage XrHandle
  | RenderView XrCompositionLayerProjectionView XrHandle int XrHandle
  | xrReleaseSwapchainImage XrHandle
  | ReleaseFrame cxrFramesLatched
  | xrEndFrame XrFrameEndInfo

datatype xr_error =
    XrFailure XrResult string
  | CheckFailed string
  | NullPointer string
  | OutOfBounds string

text \<open>
  The members of \<^verbatim>\<open>OpenXrProgram\<close> that the modelled functions read or write, the
  file-level \<^verbatim>\<open>mGsIndex\<close>, and the calls made so far.
\<close>

record OpenXrProgram =
  m_session :: XrHandle
  m_appSpace :: XrHandle
  m_ViewSpace :: XrHandle
  m_environmentBlendMode :: int
  m_configViews_size :: nat
  m_swapchains :: "Swapchain list"
  m_swapchainImages :: "XrHandle \<Rightarrow> XrHandle list"
  m_views :: "XrView list"
  m_colorSwapchainFormat :: int
  m_sessionState :: XrSessionState
  m_sessionRunning :: bool
  aimSpace :: "nat \<Rightarrow> XrHandle"
  handScale :: "nat \<Rightarrow> cfloat"
  handXYPos :: "nat \<Rightarrow> XrVector2f"
  handActive :: "nat \<Rightarrow> XrBool32"
  m_cloudxr :: bool
  mGsIndex :: int
  calls :: "call list"

section \<open>Control flow: state, exceptions, calls\<close>

text \<open>
  A member function is a function from the program state to a result and the new state.
  A C++ exception (\<^verbatim>\<open>Inl\<close>) leaves the state as it was when it was thrown.
\<close>

type_synonym 'a xr = "OpenXrProgram \<Rightarrow> (xr_error + 'a) \<times> OpenXrProgram"

definition xreturn :: "'a \<Rightarrow> 'a xr" where
  "xreturn v = (\<lambda>s. (Inr v, s))"

definition xthrow :: "xr_error \<Rightarrow> 'a xr" where
  "xthrow e = (\<lambda>s. (Inl e, s))"

definition xbind :: "'a xr \<Rightarrow> ('a \<Rightarrow> 'b xr) \<Rightarrow> 'b xr" where
  "xbind m f = (\<lambda>s. case m s of (Inl e, s') \<Rightarrow> (Inl e, s') | (Inr v, s') \<Rightarrow> f v s')"

definition xseq :: "unit xr \<Rightarrow> 'b xr \<Rightarrow> 'b xr" where
  "xseq m n = xbind m (\<lambda>_. n)"

definition xget :: "OpenXrProgram xr" where
  "xget = (\<lambda>s. (Inr s, s))"

definition xmodify :: "(OpenXrProgram \<Rightarrow> OpenXrProgram) \<Rightarrow> unit xr" where
  "xmodify f = (\<lambda>s. (Inr (), f s))"

definition emit :: "call \<Rightarrow> unit xr" where
  "emit c = xmodify (\<lambda>s. s\<lparr>calls := calls s @ [c]\<rparr>)"

text \<open>
  Modelled from the spec: the macros \<^verbatim>\<open>CHECK\<close>, \<^verbatim>\<open>CHECK_XRCMD\<close>,
  \<^verbatim>\<open>CHECK_XRRESULT\<close> and \<^verbatim>\<open>THROW_XR\<close> of common.h are not under src/. A failed
  check, or a runtime call whose return code is a failure, is fatal: it throws.
\<close>

definition CHECK :: "bool \<Rightarrow> string \<Rightarrow> unit xr" where
  "CHECK b what = (if b then xreturn () else xthrow (CheckFailed what))"

definition CHECK_XRCMD :: "XrResult \<Rightarrow> string \<Rightarrow> unit xr" where
  "CHECK_XRCMD res what = (if XR_FAILED res then xthrow (XrFailure res what) else xreturn ())"

definition THROW_XR :: "XrResult \<Rightarrow> string \<Rightarrow> 'a xr" where
  "THROW_XR res what = xthrow (XrFailure res what)"

section \<open>Session state machine\<close>

text \<open>
  What the runtime answers while \<^verbatim>\<open>PollEvents\<close> drains the queue. The pending
  answers of \<^verbatim>\<open>xrPollEvent\<close> are a list; once it is used up the runtime answers
  \<^verbatim>\<open>XR_EVENT_UNAVAILABLE\<close>. The other answers are indexed by the number of events
  read before.
\<close>

record name_reply =
  size_result :: XrResult
  name_size :: nat
  name_result :: XrResult

record bound_sources_reply =
  count_result :: XrResult
  paths_result :: XrResult
  pathCount :: nat
  names :: "nat \<Rightarrow> name_reply"

record event_replies =
  xrBeginSession_result :: "nat \<Rightarrow> XrResult"
  xrEndSession_result :: "nat \<Rightarrow> XrResult"
  xrEnumerateBoundSourcesForAction_reply :: "nat \<Rightarrow> action \<Rightarrow> bound_sources_reply"

definition TryReadNextEvent :: "XrResult \<times> XrEvent \<Rightarrow> XrEvent option xr" where
  "TryReadNextEvent reply =
     (case reply of (xr, baseHeader) \<Rightarrow>
        if xr = XR_SUCCESS then
          xseq (case baseHeader of
                  EventsLost n \<Rightarrow> emit (Log_Write Warning ''%d events lost'')
                | _ \<Rightarrow> xreturn ())
               (xreturn (Some baseHeader))
        else if xr = XR_EVENT_UNAVAILABLE then xreturn None
        else THROW_XR xr ''xrPollEvent'')"

fun LogActionSourceName_loop :: "(nat \<Rightarrow> name_reply) \<Rightarrow> nat list \<Rightarrow> unit xr" where
  "LogActionSourceName_loop nm [] = xreturn ()"
| "LogActionSourceName_loop nm (i # is) =
     xseq (CHECK_XRCMD (size_result (nm i)) ''xrGetInputSourceLocalizedName'')
       (if name_size (nm i) < 1 then LogActionSourceName_loop nm is
        else xseq (CHECK_XRCMD (name_result (nm i)) ''xrGetInputSourceLocalizedName'')
               (LogActionSourceName_loop nm is))"

definition LogActionSourceName :: "bound_sources_reply \<Rightarrow> unit xr" where
  "LogActionSourceName r =
     xseq (CHECK_XRCMD (count_result r) ''xrEnumerateBoundSourcesForAction'')
    (xseq (CHECK_XRCMD (paths_result r) ''xrEnumerateBoundSourcesForAction'')
    (xseq (LogActionSourceName_loop (names r) [0 ..< pathCount r])
          (emit (Log_Write Info ''%s action is bound to %s''))))"

definition HandleSessionStateChangedEvent ::
  "event_replies \<Rightarrow> nat \<Rightarrow> XrEventDataSessionStateChanged \<Rightarrow> bool \<times> bool \<Rightarrow> (bool \<times> bool) xr" where
  "HandleSessionStateChangedEvent rt k stateChangedEvent flags =
     xseq (xmodify (\<lambda>s. s\<lparr>m_sessionState := state stateChangedEvent\<rparr>))
    (xseq (emit (Log_Write Info ''XrEventDataSessionStateChanged: state %s->%s session=%lld time=%lld''))
    (xbind xget (\<lambda>s.
       if session stateChangedEvent \<noteq> XR_NULL_HANDLE \<and> session stateChangedEvent \<noteq> m_session s
       then xseq (emit (Log_Write Error ''XrEventDataSessionStateChanged for unknown session''))
                 (xreturn flags)
       else (case m_sessionState s of
           XR_SESSION_STATE_READY \<Rightarrow>
             xseq (CHECK (m_session s \<noteq> XR_NULL_HANDLE) ''m_session != XR_NULL_HANDLE'')
            (xseq (emit (xrBeginSession (m_session s)))
            (xseq (CHECK_XRCMD (xrBeginSession_result rt k) ''xrBeginSession'')
            (xseq (xmodify (\<lambda>s. s\<lparr>m_sessionRunning := True\<rparr>))
                  (xreturn flags))))
         | XR_SESSION_STATE_STOPPING \<Rightarrow>
             xseq (CHECK (m_session s \<noteq> XR_NULL_HANDLE) ''m_session != XR_NULL_HANDLE'')
            (xseq (xmodify (\<lambda>s. s\<lparr>m_sessionRunning := False\<rparr>))
            (xseq (emit (xrEndSession (m_session s)))
            (xseq (CHECK_XRCMD (xrEndSession_result rt k) ''xrEndSession'')
                  (xreturn flags))))
         | XR_SESSION_STATE_EXITING \<Rightarrow> xreturn (True, False)
         | XR_SESSION_STATE_LOSS_PENDING \<Rightarrow> xreturn (True, True)
         | _ \<Rightarrow> xreturn flags))))"

text \<open>
  The loop of \<^verbatim>\<open>PollEvents\<close>. The pair is \<^verbatim>\<open>(*exitRenderLoop, *requestRestart)\<close>.
  The instance-loss event returns from \<^verbatim>\<open>PollEvents\<close>; every other event goes round
  the loop.
\<close>

fun PollEvents_loop ::
  "event_replies \<Rightarrow> nat \<Rightarrow> (XrResult \<times> XrEvent) list \<Rightarrow> bool \<times> bool \<Rightarrow> (bool \<times> bool) xr" where
  "PollEvents_loop rt k [] flags =
     xbind (TryReadNextEvent (XR_EVENT_UNAVAILABLE, EventDataBuffer)) (\<lambda>_. xreturn flags)"
| "PollEvents_loop rt k (reply # pending) flags =
     xbind (TryReadNextEvent reply) (\<lambda>event.
       case event of
         None \<Rightarrow> xreturn flags
       | Some (InstanceLossPending lossTime) \<Rightarrow>
           xseq (emit (Log_Write Warning ''XrEventDataInstanceLossPending by %lld''))
                (xreturn (True, True))
       | Some (SessionStateChanged sessionStateChangedEvent) \<Rightarrow>
           xbind (HandleSessionStateChangedEvent rt k sessionStateChangedEvent flags)
                 (PollEvents_loop rt (Suc k) pending)
       | Some ControllerStateChanged \<Rightarrow>
           xseq (emit (Log_Write Info
                   ''controller event callback controller %d, status %d  eventtype %d''))
                (PollEvents_loop rt (Suc k) pending flags)
       | Some InteractionProfileChanged \<Rightarrow>
           xseq (LogActionSourceName (xrEnumerateBoundSourcesForAction_reply rt k grabAction))
          (xseq (LogActionSourceName (xrEnumerateBoundSourcesForAction_reply rt k quitAction))
          (xseq (LogActionSourceName (xrEnumerateBoundSourcesForAction_reply rt k poseAction))
          (xseq (LogActionSourceName (xrEnumerateBoundSourcesForAction_reply rt k vibrateAction))
                (PollEvents_loop rt (Suc k) pending flags))))
       | Some _ \<Rightarrow>
           xseq (emit (Log_Write Info ''Ignoring event type %d''))
                (PollEvents_loop rt (Suc k) pending flags))"

definition PollEvents :: "event_replies \<Rightarrow> (XrResult \<times> XrEvent) list \<Rightarrow> (bool \<times> bool) xr" where
  "PollEvents rt pending = PollEvents_loop rt 0 pending (False, False)"

definition IsSessionRunning :: "OpenXrProgram \<Rightarrow> bool" where
  "IsSessionRunning s = m_sessionRunning s"

definition IsSessionFocused :: "OpenXrProgram \<Rightarrow> bool" where
  "IsSessionFocused s = (m_sessionState s = XR_SESSION_STATE_FOCUSED)"

section \<open>Frame compositor\<close>

definition LEFT :: nat where
  "LEFT = 0"

definition RIGHT :: nat where
  "RIGHT = 1"

definition Side_COUNT :: nat where
  "Side_COUNT = 2"

text \<open>
  Modelled from the spec: the validity bits of the OpenXR headers are not under src/; a
  view state and a space location each carry an orientation-valid and a position-valid bit.
\<close>

definition XR_VIEW_STATE_ORIENTATION_VALID_BIT :: "64 word" where
  "XR_VIEW_STATE_ORIENTATION_VALID_BIT = 1"

definition XR_VIEW_STATE_POSITION_VALID_BIT :: "64 word" where
  "XR_VIEW_STATE_POSITION_VALID_BIT = 2"

definition XR_SPACE_LOCATION_ORIENTATION_VALID_BIT :: "64 word" where
  "XR_SPACE_LOCATION_ORIENTATION_VALID_BIT = 1"

definition XR_SPACE_LOCATION_POSITION_VALID_BIT :: "64 word" where
  "XR_SPACE_LOCATION_POSITION_VALID_BIT = 2"

text \<open>
  What the runtime, the CloudXR client and the swapchains answer during one
  \<^verbatim>\<open>RenderFrame\<close>. \<^verbatim>\<open>xrLocateViews\<close> writes \<^verbatim>\<open>lv_views\<close> into the buffer
  \<^verbatim>\<open>m_views\<close> (never beyond its capacity) and reports their number as
  \<^verbatim>\<open>viewCountOutput\<close>. \<^verbatim>\<open>LatchFrame\<close> answers whether a frame was latched and
  what \<^verbatim>\<open>framesLatched\<close> holds after the call. \<^verbatim>\<open>cxrToQuaternion\<close> and
  \<^verbatim>\<open>cxrGetTranslation\<close> are functions of the CloudXR client, which is not under src/.
\<close>

record XrFrameState =
  predictedDisplayTime :: XrTime
  shouldRender :: XrBool32

record locate_views_reply =
  lv_result :: XrResult
  viewStateFlags :: "64 word"
  lv_views :: "XrView list"
  lv_gsIndex :: int

record frame_replies =
  xrWaitFrame_reply :: "XrResult \<times> XrFrameState"
  xrBeginFrame_result :: XrResult
  xrLocateViews_reply :: locate_views_reply
  xrLocateSpace_aim_reply :: "nat \<Rightarrow> XrResult \<times> XrSpaceLocation"
  xrLocateSpace_view_reply :: "XrResult \<times> XrSpaceLocation \<times> XrSpaceVelocity"
  LatchFrame_reply :: "bool \<times> cxrFramesLatched"
  cxrToQuaternion :: "cxrMatrix34 \<Rightarrow> XrQuaternionf"
  cxrGetTranslation :: "cxrMatrix34 \<Rightarrow> XrVector3f"
  xrAcquireSwapchainImage_reply :: "nat \<Rightarrow> XrResult \<times> nat"
  xrWaitSwapchainImage_result :: "nat \<Rightarrow> XrResult"
  xrReleaseSwapchainImage_result :: "nat \<Rightarrow> XrResult"
  xrEndFrame_result :: XrResult

text \<open>The loop over the two hands that collects \<^verbatim>\<open>handPose\<close>.\<close>

fun RenderLayer_hands :: "frame_replies \<Rightarrow> XrTime \<Rightarrow> nat list \<Rightarrow> XrPosef list \<Rightarrow> XrPosef list xr" where
  "RenderLayer_hands rt predictedTime [] handPose = xreturn handPose"
| "RenderLayer_hands rt predictedTime (hand # hands) handPose =
     xbind xget (\<lambda>s.
     xseq (emit (xrLocateSpace (aimSpace s hand) (m_appSpace s) predictedTime))
     (case xrLocateSpace_aim_reply rt hand of (res, spaceLocation) \<Rightarrow>
     xseq (CHECK_XRCMD res ''xrLocateSpace'')
     (if XR_UNQUALIFIED_SUCCESS res then
        (if locationFlags spaceLocation AND XR_SPACE_LOCATION_POSITION_VALID_BIT \<noteq> 0 \<and>
            locationFlags spaceLocation AND XR_SPACE_LOCATION_ORIENTATION_VALID_BIT \<noteq> 0
         then RenderLayer_hands rt predictedTime hands (handPose @ [loc_pose spaceLocation])
         else RenderLayer_hands rt predictedTime hands handPose)
      else
        xseq (if handActive s hand = XR_TRUE
              then emit (Log_Write Info ''Unable to locate %s hand action space in app space: %d'')
              else xreturn ())
             (RenderLayer_hands rt predictedTime hands handPose))))"

text \<open>
  The loop over the views: each view's swapchain image is acquired, waited for, rendered
  to and released. The indices \<^verbatim>\<open>i\<close> are below \<^verbatim>\<open>viewCountOutput\<close>, which the
  checks of \<^verbatim>\<open>RenderLayer\<close> have made the size of \<^verbatim>\<open>m_views\<close>,
  \<^verbatim>\<open>m_swapchains\<close>, \<^verbatim>\<open>pose\<close> and \<^verbatim>\<open>projectionLayerViews\<close>.
\<close>

fun RenderLayer_views ::
  "frame_replies \<Rightarrow> cxrFramesLatched \<Rightarrow> XrPosef list \<Rightarrow> nat list \<Rightarrow>
   XrCompositionLayerProjectionView list \<Rightarrow> XrCompositionLayerProjectionView list xr" where
  "RenderLayer_views rt framesLatched pose [] projectionLayerViews = xreturn projectionLayerViews"
| "RenderLayer_views rt framesLatched pose (i # is) projectionLayerViews =
     xbind xget (\<lambda>s.
     let viewSwapchain = m_swapchains s ! i in
     xseq (emit (xrAcquireSwapchainImage (handle viewSwapchain)))
     (case xrAcquireSwapchainImage_reply rt i of (res, swapchainImageIndex) \<Rightarrow>
     xseq (CHECK_XRCMD res ''xrAcquireSwapchainImage'')
    (xseq (emit (xrWaitSwapchainImage (handle viewSwapchain)))
    (xseq (CHECK_XRCMD (xrWaitSwapchainImage_result rt i) ''xrWaitSwapchainImage'')
     (let view = \<lparr>plv_pose = pose ! i, plv_fov = view_fov (m_views s ! i),
                  subImage = \<lparr>swapchain = handle viewSwapchain, imageRect_offset = (0, 0),
                    imageRect_extent = (width viewSwapchain, height viewSwapchain)\<rparr>\<rparr>;
          images = m_swapchainImages s (handle viewSwapchain) in
     xseq (if swapchainImageIndex < length images then xreturn ()
           else xthrow (OutOfBounds ''m_swapchainImages''))
    (xseq (emit (RenderView view (images ! swapchainImageIndex) (m_colorSwapchainFormat s)
                   (texture (frames framesLatched i))))
    (xseq (emit (xrReleaseSwapchainImage (handle viewSwapchain)))
    (xseq (CHECK_XRCMD (xrReleaseSwapchainImage_result rt i) ''xrReleaseSwapchainImage'')
          (RenderLayer_views rt framesLatched pose is (projectionLayerViews[i := view]))))))))))"

definition default_view :: XrCompositionLayerProjectionView where
  "default_view =
     \<lparr>plv_pose = \<lparr>orientation = (0, 0, 0, 0), position = (0, 0, 0)\<rparr>, plv_fov = (0, 0, 0, 0),
      subImage = \<lparr>swapchain = 0, imageRect_offset = (0, 0), imageRect_extent = (0, 0)\<rparr>\<rparr>"

text \<open>
  \<^verbatim>\<open>RenderLayer\<close> returns its boolean, \<^verbatim>\<open>projectionLayerViews\<close> and
  \<^verbatim>\<open>layer\<close>. The test of the view state flags has an empty body in the source (the
  early return is commented out). \<^verbatim>\<open>m_cloudxr\<close> is dereferenced without a null test,
  and \<^verbatim>\<open>pose\<close> has room for \<^verbatim>\<open>Side::COUNT\<close> views: both are errors of the model
  where the source has undefined behaviour.
\<close>

definition RenderLayer ::
  "frame_replies \<Rightarrow> XrTime \<Rightarrow>
   (bool \<times> XrCompositionLayerProjectionView list \<times> XrCompositionLayerProjection) xr" where
  "RenderLayer rt predictedTime =
     xbind xget (\<lambda>s0.
     let viewCapacityInput = length (m_views s0);
         located = xrLocateViews_reply rt;
         viewCountOutput = length (lv_views located) in
     xseq (emit (xrLocateViews predictedTime))
    (xseq (xmodify (\<lambda>s. s\<lparr>m_views := take viewCapacityInput (lv_views located)
                                      @ drop viewCountOutput (m_views s)\<rparr>))
    (xseq (xmodify (\<lambda>s. s\<lparr>mGsIndex := lv_gsIndex located\<rparr>))
    (xseq (CHECK_XRCMD (lv_result located) ''xrLocateViews'')
    (xseq (if viewStateFlags located AND XR_VIEW_STATE_POSITION_VALID_BIT = 0 \<or>
              viewStateFlags located AND XR_VIEW_STATE_ORIENTATION_VALID_BIT = 0
           then xreturn () else xreturn ())
    (xseq (CHECK (viewCountOutput = viewCapacityInput) ''viewCountOutput == viewCapacityInput'')
    (xseq (CHECK (viewCountOutput = m_configViews_size s0) ''viewCountOutput == m_configViews.size()'')
    (xseq (CHECK (viewCountOutput = length (m_swapchains s0)) ''viewCountOutput == m_swapchains.size()'')
    (xbind (RenderLayer_hands rt predictedTime [LEFT, RIGHT] []) (\<lambda>handPose.
     xseq (emit (xrLocateSpace (m_ViewSpace s0) (m_appSpace s0) predictedTime))
     (case xrLocateSpace_view_reply rt of (res, spaceLocation, velocity) \<Rightarrow>
     xseq (CHECK_XRCMD res ''xrLocateSpace'')
    (xseq (if m_cloudxr s0 then xreturn () else xthrow (NullPointer ''m_cloudxr''))
    (xseq (emit (SetSenserPoseState (loc_pose spaceLocation) (linearVelocity velocity)
                   (angularVelocity velocity) handPose))
    (xseq (emit LatchFrame)
     (case LatchFrame_reply rt of (framevaild, framesLatched) \<Rightarrow>
     xseq (if viewCountOutput \<le> Side_COUNT then xreturn () else xthrow (OutOfBounds ''pose''))
    (xbind xget (\<lambda>s.
     let pose = map (\<lambda>i. view_pose (m_views s ! i)) [0 ..< viewCountOutput] in
     xbind (if framevaild then
              (let orientation = cxrToQuaternion rt (poseMatrix framesLatched);
                   position = cxrGetTranslation rt (poseMatrix framesLatched) in
               xreturn (map (\<lambda>i. (pose ! i)\<lparr>position := position, orientation := orientation\<rparr>)
                          [0 ..< viewCountOutput]))
            else xseq (emit (Log_Write Info ''not get framesLatched'')) (xreturn pose)) (\<lambda>pose.
     xbind (RenderLayer_views rt framesLatched pose [0 ..< viewCountOutput]
              (replicate viewCountOutput default_view)) (\<lambda>projectionLayerViews.
     xseq (if framevaild then emit (ReleaseFrame framesLatched) else xreturn ())
          (xreturn (True, projectionLayerViews,
                    \<lparr>layer_space = m_appSpace s0, viewCount = length projectionLayerViews,
                     layer_views = projectionLayerViews\<rparr>)))))))))))))))))))))"

definition RenderFrame :: "frame_replies \<Rightarrow> unit xr" where
  "RenderFrame rt =
     xbind xget (\<lambda>s0.
     xseq (CHECK (m_session s0 \<noteq> XR_NULL_HANDLE) ''m_session != XR_NULL_HANDLE'')
    (xseq (emit xrWaitFrame)
     (case xrWaitFrame_reply rt of (res, frameState) \<Rightarrow>
     xseq (CHECK_XRCMD res ''xrWaitFrame'')
    (xseq (emit xrBeginFrame)
    (xseq (CHECK_XRCMD (xrBeginFrame_result rt) ''xrBeginFrame'')
    (xbind (if shouldRender frameState = XR_TRUE then
              xbind (RenderLayer rt (predictedDisplayTime frameState))
                (\<lambda>(rendered, projectionLayerViews, layer).
                   xreturn (if rendered then [layer] else []))
            else xreturn []) (\<lambda>layers.
     xbind xget (\<lambda>s.
     xseq (emit (xrEndFrame \<lparr>displayTime = predictedDisplayTime frameState,
                   environmentBlendMode = m_environmentBlendMode s,
                   useHeadposeExt = 1, gsIndex = mGsIndex s, layers = layers\<rparr>))
          (CHECK_XRCMD (xrEndFrame_result rt) ''xrEndFrame'')))))))))"

section \<open>Input relay\<close>

text \<open>
  An action state as the runtime fills it in; \<^verbatim>\<open>XrActionStateFloat\<close>,
  \<^verbatim>\<open>XrActionStateBoolean\<close> and \<^verbatim>\<open>XrActionStateVector2f\<close> differ in the type of
  \<^verbatim>\<open>currentState\<close>.
\<close>

record 'a XrActionState =
  currentState :: 'a
  changedSinceLastSync :: XrBool32
  isActive :: XrBool32

text \<open>
  What the runtime answers during one \<^verbatim>\<open>PollActions\<close>, for each action and hand.
\<close>

record action_replies =
  xrSyncActions_result :: XrResult
  xrGetActionStateFloat_reply :: "action \<Rightarrow> nat \<Rightarrow> XrResult \<times> cfloat XrActionState"
  xrGetActionStateBoolean_reply :: "action \<Rightarrow> nat \<Rightarrow> XrResult \<times> XrBool32 XrActionState"
  xrGetActionStateVector2f_reply :: "action \<Rightarrow> nat \<Rightarrow> XrResult \<times> XrVector2f XrActionState"
  xrGetActionStatePose_reply :: "action \<Rightarrow> nat \<Rightarrow> XrResult \<times> XrBool32"
  xrApplyHapticFeedback_result :: "nat \<Rightarrow> XrResult"
  xrRequestExitSession_result :: "nat \<Rightarrow> XrResult"

text \<open>
  The enumerators of the CloudXR header that \<^verbatim>\<open>PollActions\<close> uses are not under
  src/: they are parameters, and the theorems hold for every choice of them.
\<close>

record cxr_constants =
  cxrButton_System :: nat
  cxrButton_Trigger_Touch :: nat
  cxrButton_A :: nat
  cxrButton_B :: nat
  cxrButton_X :: nat
  cxrButton_Y :: nat
  cxrAnalog_Trigger :: nat
  cxrAnalog_JoystickX :: nat
  cxrAnalog_JoystickY :: nat
  cxrAnalog_Grip :: nat

text \<open>
  The arithmetic of \<^verbatim>\<open>float\<close>: a result is rounded to binary32, that is to 24
  significant bits with exponent at least -126, to the nearest value and to the even one
  of two nearest. \<^verbatim>\<open>binary32_exponent\<close> finds the exponent of the argument, from -126
  up to 127. Overflow and NaN are not modelled.
\<close>

definition pow2 :: "int \<Rightarrow> real" where
  "pow2 e = (if 0 \<le> e then 2 ^ nat e else 1 / 2 ^ nat (- e))"

fun binary32_exponent :: "nat \<Rightarrow> int \<Rightarrow> real \<Rightarrow> int" where
  "binary32_exponent 0 e x = e"
| "binary32_exponent (Suc fuel) e x =
     (if \<bar>x\<bar> < pow2 (e + 1) then e else binary32_exponent fuel (e + 1) x)"

definition round_to_even :: "real \<Rightarrow> int" where
  "round_to_even r =
     (let f = \<lfloor>r\<rfloor> in
      if r - of_int f < 1/2 then f
      else if 1/2 < r - of_int f then f + 1
      else if even f then f else f + 1)"

definition binary32 :: "real \<Rightarrow> cfloat" where
  "binary32 x =
     (let q = binary32_exponent 253 (-126) x - 23
      in of_int (round_to_even (x / pow2 q)) * pow2 q)"

definition float_sub :: "cfloat \<Rightarrow> cfloat \<Rightarrow> cfloat" where
  "float_sub a b = binary32 (a - b)"

definition float_mul :: "cfloat \<Rightarrow> cfloat \<Rightarrow> cfloat" where
  "float_mul a b = binary32 (a * b)"

definition float_div :: "cfloat \<Rightarrow> cfloat \<Rightarrow> cfloat" where
  "float_div a b = binary32 (a / b)"

text \<open>The value of the literal \<^verbatim>\<open>0.9f\<close>.\<close>

definition float_0_9 :: cfloat where
  "float_0_9 = 15099494 / 16777216"

text \<open>\<^verbatim>\<open>cxrVRTrackingState trackingState{}\<close>: every field is zero.\<close>

definition zero_trackingState :: cxrVRTrackingState where
  "zero_trackingState = \<lparr>controller = (\<lambda>_. \<lparr>booleanComps = 0, scalarComps = (\<lambda>_. 0)\<rparr>)\<rparr>"

text \<open>
  \<^verbatim>\<open>trackingState.controller[hand].booleanComps |= 1UL << button\<close>, on 64 bits. The
  source shifts by an enumerator below the width; a shift by 64 or more sets no bit here.
\<close>

definition set_button :: "nat \<Rightarrow> nat \<Rightarrow> cxrVRTrackingState \<Rightarrow> cxrVRTrackingState" where
  "set_button hand button trackingState =
     trackingState\<lparr>controller := (controller trackingState)
       (hand := (controller trackingState hand)
          \<lparr>booleanComps := booleanComps (controller trackingState hand) OR push_bit button 1\<rparr>)\<rparr>"

text \<open>\<^verbatim>\<open>trackingState.controller[hand].scalarComps[analog] = v\<close>\<close>

definition set_scalar :: "nat \<Rightarrow> nat \<Rightarrow> cfloat \<Rightarrow> cxrVRTrackingState \<Rightarrow> cxrVRTrackingState" where
  "set_scalar hand analog v trackingState =
     trackingState\<lparr>controller := (controller trackingState)
       (hand := (controller trackingState hand)
          \<lparr>scalarComps := (scalarComps (controller trackingState hand))(analog := v)\<rparr>)\<rparr>"

definition set_handScale :: "nat \<Rightarrow> cfloat \<Rightarrow> unit xr" where
  "set_handScale hand v = xmodify (\<lambda>s. s\<lparr>handScale := (handScale s)(hand := v)\<rparr>)"

text \<open>
  The grab action: hand scale, and a haptic pulse when the hand is squeezed. The hand
  scale is \<^verbatim>\<open>1.0f - 0.5f * grabValue.currentState\<close>, a product and a difference of
  \<^verbatim>\<open>float\<close>.
\<close>

definition poll_grab :: "action_replies \<Rightarrow> nat \<Rightarrow> unit xr" where
  "poll_grab rt hand =
     (case xrGetActionStateFloat_reply rt grabAction hand of (res, grabValue) \<Rightarrow>
      xseq (CHECK_XRCMD res ''xrGetActionStateFloat'')
      (if isActive grabValue = XR_TRUE then
         xseq (set_handScale hand (float_sub 1 (float_mul (1/2) (currentState grabValue))))
         (if currentState grabValue > float_0_9 then
            xseq (emit (xrApplyHapticFeedback hand))
                 (CHECK_XRCMD (xrApplyHapticFeedback_result rt hand) ''xrApplyHapticFeedback'')
          else xreturn ())
       else xreturn ()))"

definition poll_quit :: "action_replies \<Rightarrow> nat \<Rightarrow> unit xr" where
  "poll_quit rt hand =
     (case xrGetActionStateBoolean_reply rt quitAction hand of (res, quitValue) \<Rightarrow>
      xseq (CHECK_XRCMD res ''xrGetActionStateBoolean'')
      (if isActive quitValue = XR_TRUE \<and> changedSinceLastSync quitValue = XR_TRUE \<and>
          currentState quitValue = XR_TRUE
       then xbind xget (\<lambda>s.
            xseq (emit (xrRequestExitSession (m_session s)))
                 (CHECK_XRCMD (xrRequestExitSession_result rt hand) ''xrRequestExitSession''))
       else xreturn ()))"

text \<open>
  The touchpad and the side button: pressed and released are logged and set the hand scale.
  The scale of a pressed control is a quotient of two \<^verbatim>\<open>float\<close> literals, such as
  \<^verbatim>\<open>0.01f / 0.1f\<close>.
\<close>

definition poll_scale_button ::
  "action_replies \<Rightarrow> action \<Rightarrow> nat \<Rightarrow> cfloat \<Rightarrow> string \<Rightarrow> string \<Rightarrow> unit xr" where
  "poll_scale_button rt a hand pressedScale pressed released =
     (case xrGetActionStateBoolean_reply rt a hand of (res, v) \<Rightarrow>
      xseq (CHECK_XRCMD res ''xrGetActionStateBoolean'')
      (if isActive v = XR_TRUE \<and> changedSinceLastSync v = XR_TRUE then
         (if currentState v = XR_TRUE
          then xseq (emit (Log_Write Error pressed)) (set_handScale hand pressedScale)
          else xseq (emit (Log_Write Error released)) (set_handScale hand 1))
       else xreturn ()))"

text \<open>The home button: a press sets the System bit.\<close>

definition poll_home ::
  "cxr_constants \<Rightarrow> action_replies \<Rightarrow> nat \<Rightarrow> cxrVRTrackingState \<Rightarrow> cxrVRTrackingState xr" where
  "poll_home cc rt hand trackingState =
     (case xrGetActionStateBoolean_reply rt homeAction hand of (res, homeValue) \<Rightarrow>
      xseq (CHECK_XRCMD res ''xrGetActionStateBoolean'')
      (if isActive homeValue = XR_TRUE then
         (if changedSinceLastSync homeValue = XR_TRUE then
            (if currentState homeValue = XR_TRUE
             then xseq (emit (Log_Write Error ''pico keyevent  homekey pressed %d xxx''))
                       (xreturn (set_button hand (cxrButton_System cc) trackingState))
             else xseq (emit (Log_Write Error ''pico keyevent  homekey released %d xxx''))
                       (xreturn trackingState))
          else xreturn trackingState)
       else xreturn trackingState))"

text \<open>The back button: a release sets \<^verbatim>\<open>ret\<close>.\<close>

definition poll_back :: "action_replies \<Rightarrow> nat \<Rightarrow> bool \<Rightarrow> bool xr" where
  "poll_back rt hand ret =
     (case xrGetActionStateBoolean_reply rt backAction hand of (res, backValue) \<Rightarrow>
      xseq (CHECK_XRCMD res ''xrGetActionStateBoolean'')
      (if isActive backValue = XR_TRUE \<and> changedSinceLastSync backValue = XR_TRUE then
         (if currentState backValue = XR_TRUE
          then xseq (emit (Log_Write Error ''pico keyevent  backkey pressed %d'')) (xreturn ret)
          else xseq (emit (Log_Write Error ''pico keyevent  backkey released %d'')) (xreturn True))
       else xreturn ret))"

text \<open>The trigger and the grip: an active value is copied into its analog slot.\<close>

definition poll_scalar ::
  "action_replies \<Rightarrow> action \<Rightarrow> nat \<Rightarrow> nat \<Rightarrow> cxrVRTrackingState \<Rightarrow> cxrVRTrackingState xr" where
  "poll_scalar rt a hand analog trackingState =
     (case xrGetActionStateFloat_reply rt a hand of (res, v) \<Rightarrow>
      xseq (CHECK_XRCMD res ''xrGetActionStateFloat'')
      (if isActive v = XR_TRUE
       then xreturn (set_scalar hand analog (currentState v) trackingState)
       else xreturn trackingState))"

definition poll_joystick ::
  "cxr_constants \<Rightarrow> action_replies \<Rightarrow> nat \<Rightarrow> cxrVRTrackingState \<Rightarrow> cxrVRTrackingState xr" where
  "poll_joystick cc rt hand trackingState =
     (case xrGetActionStateVector2f_reply rt joystickAction hand of (res, joystickValue) \<Rightarrow>
      xseq (CHECK_XRCMD res ''xrGetActionStateVector2f'')
      (if isActive joystickValue = XR_TRUE then
         xseq (xmodify (\<lambda>s. s\<lparr>handXYPos := (handXYPos s)(hand := currentState joystickValue)\<rparr>))
              (xreturn (set_scalar hand (cxrAnalog_JoystickY cc) (snd (currentState joystickValue))
                         (set_scalar hand (cxrAnalog_JoystickX cc) (fst (currentState joystickValue))
                            trackingState)))
       else xreturn trackingState))"

definition poll_battery :: "action_replies \<Rightarrow> nat \<Rightarrow> unit xr" where
  "poll_battery rt hand =
     (case xrGetActionStateFloat_reply rt batteryAction hand of (res, batteryValue) \<Rightarrow>
      xseq (CHECK_XRCMD res ''xrGetActionStateFloat'')
      (if isActive batteryValue = XR_TRUE then xreturn () else xreturn ()))"

text \<open>The touch controls that are only logged.\<close>

definition poll_touch :: "action_replies \<Rightarrow> action \<Rightarrow> nat \<Rightarrow> string \<Rightarrow> unit xr" where
  "poll_touch rt a hand message =
     (case xrGetActionStateBoolean_reply rt a hand of (res, v) \<Rightarrow>
      xseq (CHECK_XRCMD res ''xrGetActionStateBoolean'')
      (if isActive v = XR_TRUE then
         (if changedSinceLastSync v = XR_TRUE \<and> currentState v = XR_TRUE
          then emit (Log_Write Error message) else xreturn ())
       else xreturn ()))"

definition poll_trigger_touch ::
  "cxr_constants \<Rightarrow> action_replies \<Rightarrow> nat \<Rightarrow> cxrVRTrackingState \<Rightarrow> cxrVRTrackingState xr" where
  "poll_trigger_touch cc rt hand trackingState =
     (case xrGetActionStateBoolean_reply rt TriggerTouchAction hand of (res, TriggerTouch) \<Rightarrow>
      xseq (CHECK_XRCMD res ''xrGetActionStateBoolean'')
      (if isActive TriggerTouch = XR_TRUE then
         (if changedSinceLastSync TriggerTouch = XR_TRUE \<and> currentState TriggerTouch = XR_TRUE
          then xseq (emit (Log_Write Error ''pico keyevent  TriggerTouch click %d''))
                    (xreturn (set_button hand (cxrButton_Trigger_Touch cc) trackingState))
          else xreturn trackingState)
       else xreturn trackingState))"

text \<open>
  The buttons A, B, X and Y: a press is logged, sets the hand scale and sets the button's
  bit; a release is logged and resets the hand scale.
\<close>

definition poll_button ::
  "action_replies \<Rightarrow> action \<Rightarrow> nat \<Rightarrow> cfloat \<Rightarrow> nat \<Rightarrow> string \<Rightarrow> string \<Rightarrow>
   cxrVRTrackingState \<Rightarrow> cxrVRTrackingState xr" where
  "poll_button rt a hand pressedScale button pressed released trackingState =
     (case xrGetActionStateBoolean_reply rt a hand of (res, v) \<Rightarrow>
      xseq (CHECK_XRCMD res ''xrGetActionStateBoolean'')
      (if isActive v = XR_TRUE \<and> changedSinceLastSync v = XR_TRUE then
         (if currentState v = XR_TRUE
          then xseq (emit (Log_Write Error pressed))
              (xseq (set_handScale hand pressedScale)
                    (xreturn (set_button hand button trackingState)))
          else xseq (emit (Log_Write Error released))
              (xseq (set_handScale hand 1) (xreturn trackingState)))
       else xreturn trackingState))"

definition poll_pose :: "action_replies \<Rightarrow> nat \<Rightarrow> unit xr" where
  "poll_pose rt hand =
     (case xrGetActionStatePose_reply rt poseAction hand of (res, poseState_isActive) \<Rightarrow>
      xseq (CHECK_XRCMD res ''xrGetActionStatePose'')
           (xmodify (\<lambda>s. s\<lparr>handActive := (handActive s)(hand := poseState_isActive)\<rparr>)))"

text \<open>
  The body of the loop over the hands, in the order of the source. The pair is
  \<^verbatim>\<open>(ret, trackingState)\<close>.
\<close>

definition PollActions_hand ::
  "cxr_constants \<Rightarrow> action_replies \<Rightarrow> nat \<Rightarrow> bool \<times> cxrVRTrackingState \<Rightarrow>
   (bool \<times> cxrVRTrackingState) xr" where
  "PollActions_hand cc rt hand locals =
     (case locals of (ret, trackingState) \<Rightarrow>
      xseq (poll_grab rt hand)
     (xseq (poll_quit rt hand)
     (xseq (poll_scale_button rt touchpadAction hand (float_div (binary32 (1/100)) (binary32 (1/10)))
              ''pico keyevent  touchpadValue pressed %d''
              ''pico keyevent  touchpadValue released %d'')
     (xbind (poll_home cc rt hand trackingState) (\<lambda>trackingState.
      xbind (poll_back rt hand ret) (\<lambda>ret.
      xseq (poll_scale_button rt sideAction hand (float_div (binary32 (25/100)) (binary32 (1/10)))
              ''pico keyevent  sidekey pressed %d'' ''pico keyevent  sidekey released %d'')
     (xbind (poll_scalar rt triggerAction hand (cxrAnalog_Trigger cc) trackingState) (\<lambda>trackingState.
      xbind (poll_joystick cc rt hand trackingState) (\<lambda>trackingState.
      xseq (poll_battery rt hand)
     (xseq (poll_touch rt RockerTouchAction hand ''pico keyevent  RockerTouch click %d'')
     (xbind (poll_trigger_touch cc rt hand trackingState) (\<lambda>trackingState.
      xseq (poll_touch rt ThumbrestTouchAction hand ''pico keyevent  ThumbrestTouch click %d'')
     (xbind (poll_scalar rt GripAction hand (cxrAnalog_Grip cc) trackingState) (\<lambda>trackingState.
      xbind (poll_button rt BAction hand (float_div (binary32 (15/100)) (binary32 (1/10))) (cxrButton_B cc)
               ''pico keyevent  Bkey pressed %d'' ''pico keyevent  Bkey released %d''
               trackingState) (\<lambda>trackingState.
      xbind (poll_button rt YAction hand (float_div (binary32 (15/100)) (binary32 (1/10))) (cxrButton_Y cc)
               ''pico keyevent  Ykey pressed %d'' ''pico keyevent  Ykey released %d''
               trackingState) (\<lambda>trackingState.
      xbind (poll_button rt AAction hand (float_div (binary32 (5/100)) (binary32 (1/10))) (cxrButton_A cc)
               ''pico keyevent  Akey pressed %d'' ''pico keyevent  Akey released %d''
               trackingState) (\<lambda>trackingState.
      xbind (poll_button rt XAction hand (float_div (binary32 (5/100)) (binary32 (1/10))) (cxrButton_X cc)
               ''pico keyevent  Xkey pressed %d'' ''pico keyevent  Xkey released %d''
               trackingState) (\<lambda>trackingState.
      xseq (poll_touch rt ATouchAction hand ''pico keyevent  Atouch %d'')
     (xseq (poll_touch rt XTouchAction hand ''pico keyevent  Xtouch %d'')
     (xseq (poll_touch rt BTouchAction hand ''pico keyevent  Btouch %d'')
     (xseq (poll_touch rt YTouchAction hand ''pico keyevent  Ytouch %d'')
     (xseq (poll_pose rt hand)
           (xreturn (ret, trackingState))))))))))))))))))))))))"

fun PollActions_hands ::
  "cxr_constants \<Rightarrow> action_replies \<Rightarrow> nat list \<Rightarrow> bool \<times> cxrVRTrackingState \<Rightarrow>
   (bool \<times> cxrVRTrackingState) xr" where
  "PollActions_hands cc rt [] locals = xreturn locals"
| "PollActions_hands cc rt (hand # hands) locals =
     xbind (PollActions_hand cc rt hand locals) (PollActions_hands cc rt hands)"

definition PollActions :: "cxr_constants \<Rightarrow> action_replies \<Rightarrow> bool xr" where
  "PollActions cc rt =
     xseq (xmodify (\<lambda>s. s\<lparr>handActive := (handActive s)(LEFT := XR_FALSE, RIGHT := XR_FALSE)\<rparr>))
    (xseq (emit xrSyncActions)
    (xseq (CHECK_XRCMD (xrSyncActions_result rt) ''xrSyncActions'')
    (xbind (PollActions_hands cc rt [LEFT, RIGHT] (False, zero_trackingState))
       (\<lambda>(ret, trackingState).
          xbind xget (\<lambda>s.
          xseq (if m_cloudxr s then emit (SetTrackingState trackingState) else xreturn ())
               (xreturn ret))))))"

section \<open>A frame in which no call fails\<close>

text \<open>
  The definitions of this section are not code of the program. \<^verbatim>\<open>RenderLayer_ok\<close> and
  \<^verbatim>\<open>RenderFrame_ok\<close> collect the conditions under which no runtime call, check or
  array access of the frame fails; \<^verbatim>\<open>RenderLayer_calls\<close> and
  \<^verbatim>\<open>RenderFrame_calls\<close> list the calls such a frame makes. The lemmas
  \<^verbatim>\<open>RenderFrame_succeeds\<close> and \<^verbatim>\<open>RenderFrame_Inr\<close> below show that the
  conditions hold exactly when \<^verbatim>\<open>RenderFrame\<close> returns, and that the calls are
  the ones listed.
\<close>

definition hand_pose :: "frame_replies \<Rightarrow> nat \<Rightarrow> XrPosef list" where
  "hand_pose rt hand =
     (case xrLocateSpace_aim_reply rt hand of (res, spaceLocation) \<Rightarrow>
        if XR_UNQUALIFIED_SUCCESS res
           \<and> locationFlags spaceLocation AND XR_SPACE_LOCATION_POSITION_VALID_BIT \<noteq> 0
           \<and> locationFlags spaceLocation AND XR_SPACE_LOCATION_ORIENTATION_VALID_BIT \<noteq> 0
        then [loc_pose spaceLocation] else [])"

definition hand_calls :: "frame_replies \<Rightarrow> XrTime \<Rightarrow> OpenXrProgram \<Rightarrow> nat \<Rightarrow> call list" where
  "hand_calls rt t s hand =
     xrLocateSpace (aimSpace s hand) (m_appSpace s) t #
     (if \<not> XR_UNQUALIFIED_SUCCESS (fst (xrLocateSpace_aim_reply rt hand)) \<and> handActive s hand = XR_TRUE
      then [Log_Write Info ''Unable to locate %s hand action space in app space: %d''] else [])"

definition view_of :: "OpenXrProgram \<Rightarrow> XrPosef list \<Rightarrow> nat \<Rightarrow> XrCompositionLayerProjectionView" where
  "view_of s pose i =
     \<lparr>plv_pose = pose ! i, plv_fov = view_fov (m_views s ! i),
      subImage = \<lparr>swapchain = handle (m_swapchains s ! i), imageRect_offset = (0, 0),
        imageRect_extent = (width (m_swapchains s ! i), height (m_swapchains s ! i))\<rparr>\<rparr>"

definition view_calls ::
  "frame_replies \<Rightarrow> cxrFramesLatched \<Rightarrow> OpenXrProgram \<Rightarrow> XrPosef list \<Rightarrow> nat \<Rightarrow> call list" where
  "view_calls rt framesLatched s pose i =
     [xrAcquireSwapchainImage (handle (m_swapchains s ! i)),
      xrWaitSwapchainImage (handle (m_swapchains s ! i)),
      RenderView (view_of s pose i)
        (m_swapchainImages s (handle (m_swapchains s ! i)) ! snd (xrAcquireSwapchainImage_reply rt i))
        (m_colorSwapchainFormat s) (texture (frames framesLatched i)),
      xrReleaseSwapchainImage (handle (m_swapchains s ! i))]"

definition view_ok :: "frame_replies \<Rightarrow> OpenXrProgram \<Rightarrow> nat \<Rightarrow> bool" where
  "view_ok rt s i =
     (\<not> XR_FAILED (fst (xrAcquireSwapchainImage_reply rt i))
      \<and> snd (xrAcquireSwapchainImage_reply rt i)
          < length (m_swapchainImages s (handle (m_swapchains s ! i)))
      \<and> \<not> XR_FAILED (xrWaitSwapchainImage_result rt i)
      \<and> \<not> XR_FAILED (xrReleaseSwapchainImage_result rt i))"

definition RenderLayer_ok :: "frame_replies \<Rightarrow> OpenXrProgram \<Rightarrow> bool" where
  "RenderLayer_ok rt s =
     (\<not> XR_FAILED (lv_result (xrLocateViews_reply rt))
      \<and> length (lv_views (xrLocateViews_reply rt)) = length (m_views s)
      \<and> length (lv_views (xrLocateViews_reply rt)) = m_configViews_size s
      \<and> length (lv_views (xrLocateViews_reply rt)) = length (m_swapchains s)
      \<and> (\<forall>hand \<in> set [LEFT, RIGHT]. \<not> XR_FAILED (fst (xrLocateSpace_aim_reply rt hand)))
      \<and> \<not> XR_FAILED (fst (xrLocateSpace_view_reply rt))
      \<and> m_cloudxr s
      \<and> length (lv_views (xrLocateViews_reply rt)) \<le> Side_COUNT
      \<and> (\<forall>i \<in> set [0 ..< length (m_swapchains s)]. view_ok rt s i))"

definition remote_pose :: "frame_replies \<Rightarrow> XrPosef" where
  "remote_pose rt =
     \<lparr>orientation = cxrToQuaternion rt (poseMatrix (snd (LatchFrame_reply rt))),
      position = cxrGetTranslation rt (poseMatrix (snd (LatchFrame_reply rt)))\<rparr>"

definition layer_poses :: "frame_replies \<Rightarrow> XrPosef list" where
  "layer_poses rt =
     (if fst (LatchFrame_reply rt)
      then replicate (length (lv_views (xrLocateViews_reply rt))) (remote_pose rt)
      else map view_pose (lv_views (xrLocateViews_reply rt)))"

definition located :: "frame_replies \<Rightarrow> OpenXrProgram \<Rightarrow> OpenXrProgram" where
  "located rt s = s\<lparr>m_views := lv_views (xrLocateViews_reply rt),
                     mGsIndex := lv_gsIndex (xrLocateViews_reply rt)\<rparr>"

definition RenderLayer_calls :: "frame_replies \<Rightarrow> XrTime \<Rightarrow> OpenXrProgram \<Rightarrow> call list" where
  "RenderLayer_calls rt t s =
     xrLocateViews t # concat (map (hand_calls rt t s) [LEFT, RIGHT])
     @ [xrLocateSpace (m_ViewSpace s) (m_appSpace s) t,
        SetSenserPoseState (loc_pose (fst (snd (xrLocateSpace_view_reply rt))))
          (linearVelocity (snd (snd (xrLocateSpace_view_reply rt))))
          (angularVelocity (snd (snd (xrLocateSpace_view_reply rt))))
          (concat (map (hand_pose rt) [LEFT, RIGHT])),
        LatchFrame]
     @ (if fst (LatchFrame_reply rt) then [] else [Log_Write Info ''not get framesLatched''])
     @ concat (map (view_calls rt (snd (LatchFrame_reply rt)) (located rt s) (layer_poses rt))
                [0 ..< length (m_swapchains s)])
     @ (if fst (LatchFrame_reply rt) then [ReleaseFrame (snd (LatchFrame_reply rt))] else [])"

definition RenderLayer_views_out ::
  "frame_replies \<Rightarrow> OpenXrProgram \<Rightarrow> XrCompositionLayerProjectionView list" where
  "RenderLayer_views_out rt s =
     map (view_of (located rt s) (layer_poses rt)) [0 ..< length (m_swapchains s)]"

definition RenderFrame_ok :: "frame_replies \<Rightarrow> OpenXrProgram \<Rightarrow> bool" where
  "RenderFrame_ok rt s =
     (m_session s \<noteq> XR_NULL_HANDLE
      \<and> \<not> XR_FAILED (fst (xrWaitFrame_reply rt))
      \<and> \<not> XR_FAILED (xrBeginFrame_result rt)
      \<and> (shouldRender (snd (xrWaitFrame_reply rt)) = XR_TRUE \<longrightarrow> RenderLayer_ok rt s)
      \<and> \<not> XR_FAILED (xrEndFrame_result rt))"

definition RenderFrame_calls :: "frame_replies \<Rightarrow> OpenXrProgram \<Rightarrow> call list" where
  "RenderFrame_calls rt s =
     (if shouldRender (snd (xrWaitFrame_reply rt)) = XR_TRUE
      then [xrWaitFrame, xrBeginFrame]
           @ RenderLayer_calls rt (predictedDisplayTime (snd (xrWaitFrame_reply rt))) s
           @ [xrEndFrame \<lparr>displayTime = predictedDisplayTime (snd (xrWaitFrame_reply rt)),
                environmentBlendMode = m_environmentBlendMode s, useHeadposeExt = 1,
                gsIndex = lv_gsIndex (xrLocateViews_reply rt),
                layers = [\<lparr>layer_space = m_appSpace s, viewCount = length (m_swapchains s),
                            layer_views = RenderLayer_views_out rt s\<rparr>]\<rparr>]
      else [xrWaitFrame, xrBeginFrame,
            xrEndFrame \<lparr>displayTime = predictedDisplayTime (snd (xrWaitFrame_reply rt)),
              environmentBlendMode = m_environmentBlendMode s, useHeadposeExt = 1,
              gsIndex = mGsIndex s, layers = []\<rparr>])"

section \<open>Reading the calls of a frame\<close>

definition tick_calls :: "OpenXrProgram \<Rightarrow> OpenXrProgram \<Rightarrow> call list" where
  "tick_calls s s' = drop (length (calls s)) (calls s')"

fun submitted_views :: "call \<Rightarrow> XrCompositionLayerProjectionView list" where
  "submitted_views (xrEndFrame frameEndInfo) = concat (map layer_views (layers frameEndInfo))"
| "submitted_views _ = []"

fun submitted_layers :: "call \<Rightarrow> XrCompositionLayerProjection list option" where
  "submitted_layers (xrEndFrame frameEndInfo) = Some (layers frameEndInfo)"
| "submitted_layers _ = None"

fun is_ReleaseFrame :: "call \<Rightarrow> bool" where
  "is_ReleaseFrame (ReleaseFrame framesLatched) = True"
| "is_ReleaseFrame _ = False"

fun is_xrEndFrame :: "call \<Rightarrow> bool" where
  "is_xrEndFrame (xrEndFrame frameEndInfo) = True"
| "is_xrEndFrame _ = False"

fun rendered_texture :: "call \<Rightarrow> XrHandle option" where
  "rendered_texture (RenderView view img format tex) = Some tex"
| "rendered_texture _ = None"

fun forwarded_handPose :: "call \<Rightarrow> XrPosef list option" where
  "forwarded_handPose (SetSenserPoseState headPose linearVel angularVel handPose) = Some handPose"
| "forwarded_handPose _ = None"

fun forwarded_tracking :: "call \<Rightarrow> cxrVRTrackingState option" where
  "forwarded_tracking (SetTrackingState trackingState) = Some trackingState"
| "forwarded_tracking _ = None"

definition forwarded_snapshots :: "OpenXrProgram \<Rightarrow> OpenXrProgram \<Rightarrow> cxrVRTrackingState list" where
  "forwarded_snapshots s s' = List.map_filter forwarded_tracking (tick_calls s s')"

section \<open>What a poll computes\<close>

text \<open>
  The definitions of this section are not code of the program: they describe what
  \<^verbatim>\<open>PollActions\<close> computes and serve the proofs. \<^verbatim>\<open>hand_snapshot\<close> is the tracking
  state after the loop body has run for one hand; \<^verbatim>\<open>results\<close> says what a piece of
  the program returns when it returns, and that it forwards no snapshot on the way;
  \<^verbatim>\<open>completes\<close> says that a piece of the program returns; \<^verbatim>\<open>button_controls\<close> lists
  the controls that set a bit, with their bits, and \<^verbatim>\<open>analog_controls\<close> the controls
  that write an analog slot, each as whether it is active on this tick for this hand and
  its slot.
\<close>

definition completes :: "'a xr \<Rightarrow> bool" where
  "completes m = (\<forall>s. \<exists>v s'. m s = (Inr v, s'))"

definition actions_ok :: "action_replies \<Rightarrow> bool" where
  "actions_ok rt =
     (\<not> XR_FAILED (xrSyncActions_result rt)
      \<and> (\<forall>a hand. \<not> XR_FAILED (fst (xrGetActionStateFloat_reply rt a hand))
                 \<and> \<not> XR_FAILED (fst (xrGetActionStateBoolean_reply rt a hand))
                 \<and> \<not> XR_FAILED (fst (xrGetActionStateVector2f_reply rt a hand))
                 \<and> \<not> XR_FAILED (fst (xrGetActionStatePose_reply rt a hand)))
      \<and> (\<forall>hand. \<not> XR_FAILED (xrApplyHapticFeedback_result rt hand)
               \<and> \<not> XR_FAILED (xrRequestExitSession_result rt hand)))"

definition pressed_now :: "action_replies \<Rightarrow> action \<Rightarrow> nat \<Rightarrow> bool" where
  "pressed_now rt a hand =
     (isActive (snd (xrGetActionStateBoolean_reply rt a hand)) = XR_TRUE
      \<and> changedSinceLastSync (snd (xrGetActionStateBoolean_reply rt a hand)) = XR_TRUE
      \<and> currentState (snd (xrGetActionStateBoolean_reply rt a hand)) = XR_TRUE)"

definition released_now :: "action_replies \<Rightarrow> action \<Rightarrow> nat \<Rightarrow> bool" where
  "released_now rt a hand =
     (isActive (snd (xrGetActionStateBoolean_reply rt a hand)) = XR_TRUE
      \<and> changedSinceLastSync (snd (xrGetActionStateBoolean_reply rt a hand)) = XR_TRUE
      \<and> currentState (snd (xrGetActionStateBoolean_reply rt a hand)) \<noteq> XR_TRUE)"

definition or_bit :: "bool \<Rightarrow> nat \<Rightarrow> nat \<Rightarrow> cxrVRTrackingState \<Rightarrow> cxrVRTrackingState" where
  "or_bit b hand button trackingState =
     (if b then set_button hand button trackingState else trackingState)"

definition copy_scalar ::
  "bool \<Rightarrow> nat \<Rightarrow> nat \<Rightarrow> cfloat \<Rightarrow> cxrVRTrackingState \<Rightarrow> cxrVRTrackingState" where
  "copy_scalar b hand analog v trackingState =
     (if b then set_scalar hand analog v trackingState else trackingState)"

definition float_active :: "action_replies \<Rightarrow> action \<Rightarrow> nat \<Rightarrow> bool" where
  "float_active rt a hand = (isActive (snd (xrGetActionStateFloat_reply rt a hand)) = XR_TRUE)"

definition joystick_active :: "action_replies \<Rightarrow> nat \<Rightarrow> bool" where
  "joystick_active rt hand =
     (isActive (snd (xrGetActionStateVector2f_reply rt joystickAction hand)) = XR_TRUE)"

definition hand_snapshot ::
  "cxr_constants \<Rightarrow> action_replies \<Rightarrow> nat \<Rightarrow> cxrVRTrackingState \<Rightarrow> cxrVRTrackingState" where
  "hand_snapshot cc rt hand trackingState =
     or_bit (pressed_now rt XAction hand) hand (cxrButton_X cc)
    (or_bit (pressed_now rt AAction hand) hand (cxrButton_A cc)
    (or_bit (pressed_now rt YAction hand) hand (cxrButton_Y cc)
    (or_bit (pressed_now rt BAction hand) hand (cxrButton_B cc)
    (copy_scalar (float_active rt GripAction hand) hand (cxrAnalog_Grip cc)
       (currentState (snd (xrGetActionStateFloat_reply rt GripAction hand)))
    (or_bit (pressed_now rt TriggerTouchAction hand) hand (cxrButton_Trigger_Touch cc)
    (copy_scalar (joystick_active rt hand) hand (cxrAnalog_JoystickY cc)
       (snd (currentState (snd (xrGetActionStateVector2f_reply rt joystickAction hand))))
    (copy_scalar (joystick_active rt hand) hand (cxrAnalog_JoystickX cc)
       (fst (currentState (snd (xrGetActionStateVector2f_reply rt joystickAction hand))))
    (copy_scalar (float_active rt triggerAction hand) hand (cxrAnalog_Trigger cc)
       (currentState (snd (xrGetActionStateFloat_reply rt triggerAction hand)))
    (or_bit (pressed_now rt homeAction hand) hand (cxrButton_System cc) trackingState)))))))))"

definition silent :: "OpenXrProgram \<Rightarrow> OpenXrProgram \<Rightarrow> bool" where
  "silent s s' =
     (m_cloudxr s' = m_cloudxr s
      \<and> (\<exists>cs. calls s' = calls s @ cs \<and> List.map_filter forwarded_tracking cs = []))"

definition results :: "'a xr \<Rightarrow> ('a \<Rightarrow> bool) \<Rightarrow> bool" where
  "results m Q = (\<forall>s v s'. m s = (Inr v, s') \<longrightarrow> Q v \<and> silent s s')"

definition button_controls :: "cxr_constants \<Rightarrow> (action \<times> nat) list" where
  "button_controls cc =
     [(homeAction, cxrButton_System cc), (TriggerTouchAction, cxrButton_Trigger_Touch cc),
      (BAction, cxrButton_B cc), (YAction, cxrButton_Y cc),
      (AAction, cxrButton_A cc), (XAction, cxrButton_X cc)]"

definition analog_controls ::
  "cxr_constants \<Rightarrow> action_replies \<Rightarrow> nat \<Rightarrow> (bool \<times> nat) list" where
  "analog_controls cc rt hand =
     [(isActive (snd (xrGetActionStateFloat_reply rt triggerAction hand)) = XR_TRUE,
       cxrAnalog_Trigger cc),
      (isActive (snd (xrGetActionStateVector2f_reply rt joystickAction hand)) = XR_TRUE,
       cxrAnalog_JoystickX cc),
      (isActive (snd (xrGetActionStateVector2f_reply rt joystickAction hand)) = XR_TRUE,
       cxrAnalog_JoystickY cc),
      (isActive (snd (xrGetActionStateFloat_reply rt GripAction hand)) = XR_TRUE,
       cxrAnalog_Grip cc)]"

section \<open>Example inputs\<close>

definition example_program :: OpenXrProgram where
  "example_program =
     \<lparr>m_session = 5, m_appSpace = 1, m_ViewSpace = 2, m_environmentBlendMode = 1,
      m_configViews_size = 2,
      m_swapchains = [\<lparr>handle = 11, width = 1832, height = 1920\<rparr>,
                      \<lparr>handle = 12, width = 1832, height = 1920\<rparr>],
      m_swapchainImages = (\<lambda>h. if h = 11 then [111, 112, 113]
                                else if h = 12 then [121, 122, 123] else []),
      m_views = [\<lparr>view_pose = \<lparr>orientation = (0, 0, 0, 1), position = (0, 0, 0)\<rparr>,
                  view_fov = (-1, 1, 1, -1)\<rparr>,
                 \<lparr>view_pose = \<lparr>orientation = (0, 0, 0, 1), position = (0, 0, 0)\<rparr>,
                  view_fov = (-1, 1, 1, -1)\<rparr>],
      m_colorSwapchainFormat = 0,
      m_sessionState = XR_SESSION_STATE_IDLE, m_sessionRunning = False,
      aimSpace = (\<lambda>hand. if hand = 0 then 21 else 22),
      handScale = (\<lambda>_. 1), handXYPos = (\<lambda>_. (0, 0)), handActive = (\<lambda>_. 0),
      m_cloudxr = True, mGsIndex = 0, calls = []\<rparr>"

definition example_event_replies :: event_replies where
  "example_event_replies =
     \<lparr>xrBeginSession_result = (\<lambda>_. 0), xrEndSession_result = (\<lambda>_. 0),
      xrEnumerateBoundSourcesForAction_reply =
        (\<lambda>_ _. \<lparr>count_result = 0, paths_result = 0, pathCount = 0,
                 names = (\<lambda>_. \<lparr>size_result = 0, name_size = 0, name_result = 0\<rparr>)\<rparr>)\<rparr>"

definition exiting_event :: XrEventDataSessionStateChanged where
  "exiting_event = \<lparr>session = 5, state = XR_SESSION_STATE_EXITING, time = 0\<rparr>"

definition loss_pending_event :: XrEventDataSessionStateChanged where
  "loss_pending_event = \<lparr>session = 0, state = XR_SESSION_STATE_LOSS_PENDING, time = 0\<rparr>"

definition foreign_focused_event :: XrEventDataSessionStateChanged where
  "foreign_focused_event = \<lparr>session = 7, state = XR_SESSION_STATE_FOCUSED, time = 0\<rparr>"

definition state_changed_log :: call where
  "state_changed_log =
     Log_Write Info ''XrEventDataSessionStateChanged: state %s->%s session=%lld time=%lld''"

definition example_frames_latched :: cxrFramesLatched where
  "example_frames_latched =
     \<lparr>poseMatrix = [1, 0, 0, 1/2, 0, 1, 0, 3/2, 0, 0, 1, -2],
      frames = (\<lambda>i. \<lparr>texture = (if i = 0 then 31 else 32)\<rparr>)\<rparr>"

definition example_frame_replies :: frame_replies where
  "example_frame_replies =
     \<lparr>xrWaitFrame_reply = (0, \<lparr>predictedDisplayTime = 1000, shouldRender = 1\<rparr>),
      xrBeginFrame_result = 0,
      xrLocateViews_reply =
        \<lparr>lv_result = 0, viewStateFlags = 3,
         lv_views = [\<lparr>view_pose = \<lparr>orientation = (0, 0, 0, 1), position = (-3/100, 8/5, 0)\<rparr>,
                      view_fov = (-1, 1, 1, -1)\<rparr>,
                     \<lparr>view_pose = \<lparr>orientation = (0, 0, 0, 1), position = (3/100, 8/5, 0)\<rparr>,
                      view_fov = (-1, 1, 1, -1)\<rparr>],
         lv_gsIndex = 4\<rparr>,
      xrLocateSpace_aim_reply =
        (\<lambda>hand. if hand = 0
           then (0, \<lparr>locationFlags = 3,
                     loc_pose = \<lparr>orientation = (0, 0, 0, 1), position = (-1/5, 1, -3/10)\<rparr>\<rparr>)
           else (0, \<lparr>locationFlags = 3,
                     loc_pose = \<lparr>orientation = (0, 0, 0, 1), position = (1/5, 1, -3/10)\<rparr>\<rparr>)),
      xrLocateSpace_view_reply =
        (0, \<lparr>locationFlags = 3,
              loc_pose = \<lparr>orientation = (0, 0, 0, 1), position = (0, 8/5, 0)\<rparr>\<rparr>,
            \<lparr>linearVelocity = (0, 0, 0), angularVelocity = (0, 0, 0)\<rparr>),
      LatchFrame_reply = (True, example_frames_latched),
      cxrToQuaternion = (\<lambda>m. (m ! 1, m ! 2, m ! 4, m ! 0)),
      cxrGetTranslation = (\<lambda>m. (m ! 3, m ! 7, m ! 11)),
      xrAcquireSwapchainImage_reply = (\<lambda>i. (0, 1)),
      xrWaitSwapchainImage_result = (\<lambda>i. 0),
      xrReleaseSwapchainImage_result = (\<lambda>i. 0),
      xrEndFrame_result = 0\<rparr>"

definition left_lost_replies :: frame_replies where
  "left_lost_replies =
     example_frame_replies\<lparr>xrLocateSpace_aim_reply :=
       (\<lambda>hand. if hand = 0
          then (0, \<lparr>locationFlags = 0,
                    loc_pose = \<lparr>orientation = (0, 0, 0, 0), position = (0, 0, 0)\<rparr>\<rparr>)
          else (0, \<lparr>locationFlags = 3,
                    loc_pose = \<lparr>orientation = (0, 0, 0, 1), position = (1/4, 1, -3/10)\<rparr>\<rparr>))\<rparr>"

definition no_frame_replies :: frame_replies where
  "no_frame_replies =
     example_frame_replies\<lparr>LatchFrame_reply :=
       (False, \<lparr>poseMatrix = [], frames = (\<lambda>i. \<lparr>texture = 0\<rparr>)\<rparr>)\<rparr>"

definition invalid_views_replies :: frame_replies where
  "invalid_views_replies =
     example_frame_replies\<lparr>xrLocateViews_reply :=
       (xrLocateViews_reply example_frame_replies)\<lparr>viewStateFlags := 0\<rparr>\<rparr>"


definition after_first_frame :: OpenXrProgram where
  "after_first_frame = snd (RenderFrame example_frame_replies example_program)"

definition after_unlatched_frame :: OpenXrProgram where
  "after_unlatched_frame = snd (RenderFrame no_frame_replies example_program)"

definition after_second_frame :: OpenXrProgram where
  "after_second_frame = snd (RenderFrame left_lost_replies after_first_frame)"

definition cloudxr_constants :: cxr_constants where
  "cloudxr_constants =
     \<lparr>cxrButton_System = 0, cxrButton_Trigger_Touch = 4, cxrButton_A = 10, cxrButton_B = 11,
      cxrButton_X = 12, cxrButton_Y = 13, cxrAnalog_Trigger = 0, cxrAnalog_JoystickX = 3,
      cxrAnalog_JoystickY = 4, cxrAnalog_Grip = 5\<rparr>"

definition idle_action_replies :: action_replies where
  "idle_action_replies =
     \<lparr>xrSyncActions_result = 0,
      xrGetActionStateFloat_reply =
        (\<lambda>a hand. (0, \<lparr>currentState = 0, changedSinceLastSync = 0, isActive = 0\<rparr>)),
      xrGetActionStateBoolean_reply =
        (\<lambda>a hand. (0, \<lparr>currentState = 0, changedSinceLastSync = 0, isActive = 0\<rparr>)),
      xrGetActionStateVector2f_reply =
        (\<lambda>a hand. (0, \<lparr>currentState = (0, 0), changedSinceLastSync = 0, isActive = 0\<rparr>)),
      xrGetActionStatePose_reply = (\<lambda>a hand. (0, 1)),
      xrApplyHapticFeedback_result = (\<lambda>hand. 0),
      xrRequestExitSession_result = (\<lambda>hand. 0)\<rparr>"

definition pressed_replies :: action_replies where
  "pressed_replies = idle_action_replies
     \<lparr>xrGetActionStateBoolean_reply :=
        (\<lambda>a hand. if (a = AAction \<or> a = backAction) \<and> hand = 1
           then (0, \<lparr>currentState = 1, changedSinceLastSync = 1, isActive = 1\<rparr>)
           else (0, \<lparr>currentState = 0, changedSinceLastSync = 0, isActive = 0\<rparr>)),
      xrGetActionStateFloat_reply :=
        (\<lambda>a hand. if a = triggerAction \<and> hand = 1
           then (0, \<lparr>currentState = 3/4, changedSinceLastSync = 1, isActive = 1\<rparr>)
           else (0, \<lparr>currentState = 0, changedSinceLastSync = 0, isActive = 0\<rparr>))\<rparr>"

definition held_replies :: action_replies where
  "held_replies = idle_action_replies
     \<lparr>xrGetActionStateBoolean_reply :=
        (\<lambda>a hand. if (a = AAction \<or> a = backAction) \<and> hand = 1
           then (0, \<lparr>currentState = 1, changedSinceLastSync = 0, isActive = 1\<rparr>)
           else (0, \<lparr>currentState = 0, changedSinceLastSync = 0, isActive = 0\<rparr>))\<rparr>"

definition released_replies :: action_replies where
  "released_replies = idle_action_replies
     \<lparr>xrGetActionStateBoolean_reply :=
        (\<lambda>a hand. if (a = AAction \<or> a = backAction) \<and> hand = 1
           then (0, \<lparr>currentState = 0, changedSinceLastSync = 1, isActive = 1\<rparr>)
           else (0, \<lparr>currentState = 0, changedSinceLastSync = 0, isActive = 0\<rparr>))\<rparr>"

definition after_press :: OpenXrProgram where
  "after_press = snd (PollActions cloudxr_constants pressed_replies example_program)"

definition after_hold :: OpenXrProgram where
  "after_hold = snd (PollActions cloudxr_constants held_replies after_press)"

definition after_idle :: OpenXrProgram where
  "after_idle = snd (PollActions cloudxr_constants idle_action_replies after_press)"

definition after_release :: OpenXrProgram where
  "after_release = snd (PollActions cloudxr_constants released_replies after_hold)"

section \<open>Rules of the control flow\<close>

text \<open>
  How each construct runs on a state, and what follows when a construct has returned.
\<close>

lemmas xr_defs = xreturn_def xthrow_def xbind_def xseq_def xget_def xmodify_def emit_def
  CHECK_def CHECK_XRCMD_def THROW_XR_def

lemma xreturn_run: "xreturn v s = (Inr v, s)"
  by (simp add: xreturn_def)

lemma xthrow_run: "xthrow e s = (Inl e, s)"
  by (simp add: xthrow_def)

lemma xbind_run:
  "xbind m f s = (case m s of (Inl e, s') \<Rightarrow> (Inl e, s') | (Inr v, s') \<Rightarrow> f v s')"
  by (simp add: xbind_def)

lemma xseq_run:
  "xseq m n s = (case m s of (Inl e, s') \<Rightarrow> (Inl e, s') | (Inr v, s') \<Rightarrow> n s')"
  by (simp add: xseq_def xbind_def)

lemma xget_run: "xget s = (Inr s, s)"
  by (simp add: xget_def)

lemma xmodify_run: "xmodify f s = (Inr (), f s)"
  by (simp add: xmodify_def)

lemma emit_run: "emit c s = (Inr (), s\<lparr>calls := calls s @ [c]\<rparr>)"
  by (simp add: emit_def xmodify_def)

lemma CHECK_run: "CHECK b what s = (if b then (Inr (), s) else (Inl (CheckFailed what), s))"
  by (simp add: CHECK_def xreturn_def xthrow_def)

lemma CHECK_XRCMD_run:
  "CHECK_XRCMD res what s = (if XR_FAILED res then (Inl (XrFailure res what), s) else (Inr (), s))"
  by (simp add: CHECK_XRCMD_def xreturn_def xthrow_def)

lemmas xr_run = xreturn_run xthrow_run xbind_run xseq_run xget_run xmodify_run emit_run
  CHECK_run CHECK_XRCMD_run

lemma xbind_InrD:
  "xbind m f s = (Inr r, s') \<Longrightarrow> \<exists>v s1. m s = (Inr v, s1) \<and> f v s1 = (Inr r, s')"
  by (auto simp: xbind_def split: prod.splits sum.splits)

lemma xseq_InrD:
  "xseq m n s = (Inr r, s') \<Longrightarrow> \<exists>s1. m s = (Inr (), s1) \<and> n s1 = (Inr r, s')"
  by (auto simp: xseq_def xbind_def split: prod.splits sum.splits)

lemma CHECK_XRCMD_InrD: "CHECK_XRCMD res what s = (Inr u, s1) \<Longrightarrow> \<not> XR_FAILED res \<and> s1 = s"
  by (auto simp: CHECK_XRCMD_run split: if_splits)

lemma CHECK_InrD: "CHECK b what s = (Inr u, s1) \<Longrightarrow> b \<and> s1 = s"
  by (auto simp: CHECK_run split: if_splits)

lemma guard_InrD:
  "(if b then xreturn () else xthrow e) s = (Inr u, s1) \<Longrightarrow> b \<and> s1 = s"
  by (auto simp: xr_run split: if_splits)

lemma emit_InrD: "emit c s = (Inr u, s1) \<Longrightarrow> s1 = s\<lparr>calls := calls s @ [c]\<rparr>"
  by (simp add: emit_run)

lemma xget_InrD: "xget s = (Inr v, s1) \<Longrightarrow> v = s \<and> s1 = s"
  by (auto simp: xget_run)

lemma xmodify_InrD: "xmodify f s = (Inr u, s1) \<Longrightarrow> s1 = f s"
  by (simp add: xmodify_run)

lemma xreturn_InrD: "xreturn v s = (Inr u, s1) \<Longrightarrow> u = v \<and> s1 = s"
  by (auto simp: xreturn_run)

section \<open>Properties of the session state machine\<close>

declare PollEvents_loop.simps [simp del]

lemma Handle_exiting:
  assumes "state ev = XR_SESSION_STATE_EXITING"
      and "session ev = XR_NULL_HANDLE \<or> session ev = m_session s"
  shows "HandleSessionStateChangedEvent rt k ev flags s =
     (Inr (True, False),
      s\<lparr>m_sessionState := XR_SESSION_STATE_EXITING, calls := calls s @ [state_changed_log]\<rparr>)"
  using assms by (auto simp: HandleSessionStateChangedEvent_def state_changed_log_def xr_defs)

lemma Handle_loss_pending:
  assumes "state ev = XR_SESSION_STATE_LOSS_PENDING"
      and "session ev = XR_NULL_HANDLE \<or> session ev = m_session s"
  shows "HandleSessionStateChangedEvent rt k ev flags s =
     (Inr (True, True),
      s\<lparr>m_sessionState := XR_SESSION_STATE_LOSS_PENDING,
        calls := calls s @ [state_changed_log]\<rparr>)"
  using assms by (auto simp: HandleSessionStateChangedEvent_def state_changed_log_def xr_defs)

lemma TryReadNextEvent_state_changed:
  "TryReadNextEvent (XR_SUCCESS, SessionStateChanged ev) s = (Inr (Some (SessionStateChanged ev)), s)"
  by (simp add: TryReadNextEvent_def xr_defs)

lemma TryReadNextEvent_instance_loss:
  "TryReadNextEvent (XR_SUCCESS, InstanceLossPending t) s = (Inr (Some (InstanceLossPending t)), s)"
  by (simp add: TryReadNextEvent_def xr_defs)

lemma PollEvents_loop_Nil: "PollEvents_loop rt k [] flags s = (Inr flags, s)"
  by (simp add: PollEvents_loop.simps TryReadNextEvent_def xr_defs XR_SUCCESS_def XR_EVENT_UNAVAILABLE_def)

lemma PollEvents_loop_state_changed:
  "PollEvents_loop rt k ((XR_SUCCESS, SessionStateChanged ev) # pending) flags s =
     (case HandleSessionStateChangedEvent rt k ev flags s of
        (Inl e, s') \<Rightarrow> (Inl e, s')
      | (Inr flags', s') \<Rightarrow> PollEvents_loop rt (Suc k) pending flags' s')"
  by (simp add: PollEvents_loop.simps xbind_def TryReadNextEvent_state_changed)

text \<open>
  C6. A session-state-changed event for the owned session (or with a null session handle)
  that carries the state exiting sets
  \<^verbatim>\<open>(exitRenderLoop, requestRestart)\<close> to (true, false), and the loop goes on with the
  next event; one that carries loss-pending sets (true, true). If it is the last pending
  event, these are the flags \<^verbatim>\<open>PollEvents\<close> hands back. An instance-loss-pending event
  makes \<^verbatim>\<open>PollEvents\<close> return at once with (true, true), and the stored session state
  is what it was: only the log has grown.
\<close>

theorem PollEvents_exit_restart_flags:
  assumes "session ev = XR_NULL_HANDLE \<or> session ev = m_session s"
  shows "(state ev = XR_SESSION_STATE_EXITING \<longrightarrow>
            PollEvents_loop rt k ((XR_SUCCESS, SessionStateChanged ev) # pending) flags s =
              PollEvents_loop rt (Suc k) pending (True, False)
                (s\<lparr>m_sessionState := XR_SESSION_STATE_EXITING,
                   calls := calls s @ [state_changed_log]\<rparr>)
          \<and> fst (PollEvents rt [(XR_SUCCESS, SessionStateChanged ev)] s) = Inr (True, False))
       \<and> (state ev = XR_SESSION_STATE_LOSS_PENDING \<longrightarrow>
            PollEvents_loop rt k ((XR_SUCCESS, SessionStateChanged ev) # pending) flags s =
              PollEvents_loop rt (Suc k) pending (True, True)
                (s\<lparr>m_sessionState := XR_SESSION_STATE_LOSS_PENDING,
                   calls := calls s @ [state_changed_log]\<rparr>)
          \<and> fst (PollEvents rt [(XR_SUCCESS, SessionStateChanged ev)] s) = Inr (True, True))
       \<and> PollEvents_loop rt k ((XR_SUCCESS, InstanceLossPending lossTime) # pending) flags s =
            (Inr (True, True),
             s\<lparr>calls := calls s @
                  [Log_Write Warning ''XrEventDataInstanceLossPending by %lld'']\<rparr>)
       \<and> m_sessionState
            (snd (PollEvents rt ((XR_SUCCESS, InstanceLossPending lossTime) # pending) s)) =
            m_sessionState s"
proof -
  have inst: "PollEvents_loop rt k' ((XR_SUCCESS, InstanceLossPending lossTime) # pending) fl s =
      (Inr (True, True),
       s\<lparr>calls := calls s @ [Log_Write Warning ''XrEventDataInstanceLossPending by %lld'']\<rparr>)"
    for k' fl
    by (simp add: PollEvents_loop.simps xbind_def TryReadNextEvent_instance_loss)
       (simp add: xseq_def xbind_def emit_def xmodify_def xreturn_def)
  have ex: "PollEvents_loop rt k' ((XR_SUCCESS, SessionStateChanged ev) # q) fl s =
        PollEvents_loop rt (Suc k') q (True, False)
          (s\<lparr>m_sessionState := XR_SESSION_STATE_EXITING, calls := calls s @ [state_changed_log]\<rparr>)"
    if "state ev = XR_SESSION_STATE_EXITING" for k' q fl
    using that assms by (simp add: PollEvents_loop_state_changed Handle_exiting)
  have lp: "PollEvents_loop rt k' ((XR_SUCCESS, SessionStateChanged ev) # q) fl s =
        PollEvents_loop rt (Suc k') q (True, True)
          (s\<lparr>m_sessionState := XR_SESSION_STATE_LOSS_PENDING,
             calls := calls s @ [state_changed_log]\<rparr>)"
    if "state ev = XR_SESSION_STATE_LOSS_PENDING" for k' q fl
    using that assms by (simp add: PollEvents_loop_state_changed Handle_loss_pending)
  show ?thesis
    by (simp add: inst ex lp PollEvents_def PollEvents_loop_Nil)
qed

theorem PollEvents_exit_restart_flags_witness:
  "(session exiting_event = XR_NULL_HANDLE \<or> session exiting_event = m_session example_program)
   \<and> state exiting_event = XR_SESSION_STATE_EXITING
   \<and> fst (PollEvents example_event_replies
            [(XR_SUCCESS, SessionStateChanged exiting_event)] example_program) = Inr (True, False)
   \<and> (session loss_pending_event = XR_NULL_HANDLE
        \<or> session loss_pending_event = m_session example_program)
   \<and> state loss_pending_event = XR_SESSION_STATE_LOSS_PENDING
   \<and> fst (PollEvents example_event_replies
            [(XR_SUCCESS, SessionStateChanged loss_pending_event)] example_program) = Inr (True, True)"
proof -
  have h1: "session exiting_event = XR_NULL_HANDLE \<or> session exiting_event = m_session example_program"
    by (simp add: exiting_event_def example_program_def)
  have h2: "session loss_pending_event = XR_NULL_HANDLE
        \<or> session loss_pending_event = m_session example_program"
    by (simp add: loss_pending_event_def XR_NULL_HANDLE_def)
  have e1: "state exiting_event = XR_SESSION_STATE_EXITING"
    by (simp add: exiting_event_def)
  have e2: "state loss_pending_event = XR_SESSION_STATE_LOSS_PENDING"
    by (simp add: loss_pending_event_def)
  show ?thesis
    using h1 h2 e1 e2
      PollEvents_exit_restart_flags [OF h1, of example_event_replies]
      PollEvents_exit_restart_flags [OF h2, of example_event_replies]
    by simp
qed

text \<open>
  An event of another session: the error is logged and the flags, the running flag and the
  session calls are untouched, but the session state has been assigned before the test.
\<close>

lemma foreign_session_event_effect:
  assumes "session ev \<noteq> XR_NULL_HANDLE" and "session ev \<noteq> m_session s"
  shows "HandleSessionStateChangedEvent rt k ev flags s =
     (Inr flags,
      s\<lparr>m_sessionState := state ev,
        calls := calls s @ [state_changed_log,
                 Log_Write Error ''XrEventDataSessionStateChanged for unknown session'']\<rparr>)"
  using assms by (simp add: HandleSessionStateChangedEvent_def state_changed_log_def xr_defs)

text \<open>
  C7 at a concrete input. The program owns session 5 and is idle; the runtime delivers a
  state-changed event of session 7 that carries the state focused. The event is logged as
  one for an unknown session, no session call is made and the flags stay false, but the
  stored session state has been overwritten: \<^verbatim>\<open>IsSessionFocused\<close> now answers true.
\<close>

theorem foreign_session_event_overwrites_state:
  "session foreign_focused_event \<noteq> XR_NULL_HANDLE
   \<and> session foreign_focused_event \<noteq> m_session example_program
   \<and> \<not> IsSessionFocused example_program
   \<and> PollEvents example_event_replies
        [(XR_SUCCESS, SessionStateChanged foreign_focused_event)] example_program =
       (Inr (False, False),
        example_program\<lparr>m_sessionState := XR_SESSION_STATE_FOCUSED,
          calls := [state_changed_log,
                    Log_Write Error ''XrEventDataSessionStateChanged for unknown session'']\<rparr>)
   \<and> IsSessionFocused (snd (PollEvents example_event_replies
        [(XR_SUCCESS, SessionStateChanged foreign_focused_event)] example_program))"
  by (simp add: PollEvents_def PollEvents_loop_state_changed PollEvents_loop_Nil
        HandleSessionStateChangedEvent_def xr_defs foreign_focused_event_def
        example_program_def XR_NULL_HANDLE_def IsSessionFocused_def state_changed_log_def)

section \<open>Properties of the frame compositor\<close>

declare RenderLayer_hands.simps [simp del] RenderLayer_views.simps [simp del]

lemma hand_calls_calls [simp]: "hand_calls rt t (s\<lparr>calls := c\<rparr>) = hand_calls rt t s"
  by (rule ext) (simp add: hand_calls_def)

lemma RenderLayer_hands_ok:
  "\<forall>hand \<in> set hands. \<not> XR_FAILED (fst (xrLocateSpace_aim_reply rt hand)) \<Longrightarrow>
   RenderLayer_hands rt t hands handPose s =
     (Inr (handPose @ concat (map (hand_pose rt) hands)),
      s\<lparr>calls := calls s @ concat (map (hand_calls rt t s) hands)\<rparr>)"
proof (induction hands arbitrary: handPose s)
  case Nil
  then show ?case by (simp add: RenderLayer_hands.simps xreturn_def)
next
  case (Cons hand hands)
  obtain res loc where r: "xrLocateSpace_aim_reply rt hand = (res, loc)"
    by (cases "xrLocateSpace_aim_reply rt hand")
  from Cons.prems r have ok: "\<not> XR_FAILED res" by simp
  from Cons.prems have rest: "\<forall>h \<in> set hands. \<not> XR_FAILED (fst (xrLocateSpace_aim_reply rt h))"
    by simp
  show ?case
    using ok r
    by (simp add: RenderLayer_hands.simps Cons.IH [OF rest] xr_run hand_pose_def hand_calls_def)
qed

lemma view_of_calls [simp]: "view_of (s\<lparr>calls := c\<rparr>) = view_of s"
  by (intro ext) (simp add: view_of_def)

lemma view_calls_calls [simp]: "view_calls rt fl (s\<lparr>calls := c\<rparr>) = view_calls rt fl s"
  by (intro ext) (simp add: view_calls_def)

lemma view_ok_calls [simp]: "view_ok rt (s\<lparr>calls := c\<rparr>) = view_ok rt s"
  by (intro ext) (simp add: view_ok_def)

lemma RenderLayer_views_ok:
  "\<forall>i \<in> set is. view_ok rt s i \<Longrightarrow>
   RenderLayer_views rt fl pose is plv s =
     (Inr (fold (\<lambda>i l. l[i := view_of s pose i]) is plv),
      s\<lparr>calls := calls s @ concat (map (view_calls rt fl s pose) is)\<rparr>)"
proof (induction "is" arbitrary: plv s)
  case Nil
  then show ?case by (simp add: RenderLayer_views.simps xreturn_def)
next
  case (Cons i "is")
  obtain res idx where r: "xrAcquireSwapchainImage_reply rt i = (res, idx)"
    by (cases "xrAcquireSwapchainImage_reply rt i")
  from Cons.prems r have ok: "\<not> XR_FAILED res"
      "idx < length (m_swapchainImages s (handle (m_swapchains s ! i)))"
      "\<not> XR_FAILED (xrWaitSwapchainImage_result rt i)"
      "\<not> XR_FAILED (xrReleaseSwapchainImage_result rt i)"
    by (simp_all add: view_ok_def)
  from Cons.prems have rest: "\<forall>j \<in> set is. view_ok rt s j"
    by simp
  show ?case
    using ok r
    by (simp add: RenderLayer_views.simps Cons.IH rest xr_run Let_def view_of_def view_calls_def)
qed

lemma fold_update_nth:
  "distinct is \<Longrightarrow> i \<in> set is \<Longrightarrow> i < length l \<Longrightarrow>
   fold (\<lambda>i l. l[i := f i]) is l ! i = f i"
proof (induction "is" arbitrary: l)
  case Nil
  then show ?case by simp
next
  case (Cons j js)
  have keep: "j \<notin> set js \<Longrightarrow> j < length l' \<Longrightarrow> fold (\<lambda>i l. l[i := f i]) js l' ! j = l' ! j" for l'
    by (induction js arbitrary: l') auto
  show ?case
  proof (cases "i = j")
    case True
    with Cons.prems show ?thesis by (simp add: keep)
  next
    case False
    with Cons.prems show ?thesis by (simp add: Cons.IH)
  qed
qed

lemma fold_update_length [simp]: "length (fold (\<lambda>i l. l[i := f i]) is l) = length l"
  by (induction "is" arbitrary: l) auto

lemma fold_update_upt:
  "fold (\<lambda>i l. l[i := f i]) [0 ..< n] (replicate n d) = map f [0 ..< n]"
  by (rule nth_equalityI) (simp_all add: fold_update_nth)

lemma hand_calls_upd [simp]:
  "hand_calls rt t (s\<lparr>m_views := v\<rparr>) = hand_calls rt t s"
  "hand_calls rt t (s\<lparr>mGsIndex := g\<rparr>) = hand_calls rt t s"
  by (intro ext, simp add: hand_calls_def)+

lemma view_ok_upd [simp]:
  "view_ok rt (s\<lparr>m_views := v\<rparr>) = view_ok rt s"
  "view_ok rt (s\<lparr>mGsIndex := g\<rparr>) = view_ok rt s"
  by (intro ext, simp add: view_ok_def)+

lemma view_of_cong:
  "m_views s = m_views s' \<Longrightarrow> m_swapchains s = m_swapchains s' \<Longrightarrow> view_of s = view_of s'"
  by (intro ext) (simp add: view_of_def)

lemma view_calls_cong:
  "m_views s = m_views s' \<Longrightarrow> m_swapchains s = m_swapchains s' \<Longrightarrow>
   m_swapchainImages s = m_swapchainImages s' \<Longrightarrow>
   m_colorSwapchainFormat s = m_colorSwapchainFormat s' \<Longrightarrow>
   view_calls rt fl s = view_calls rt fl s'"
  by (intro ext) (simp add: view_calls_def view_of_def)

lemma replace_pose: "p\<lparr>position := b, orientation := a\<rparr> = \<lparr>orientation = a, position = b\<rparr>"
  by simp

lemma RenderLayer_succeeds:
  assumes ok: "RenderLayer_ok rt s"
  shows "RenderLayer rt t s =
     (Inr (True, RenderLayer_views_out rt s,
           \<lparr>layer_space = m_appSpace s, viewCount = length (m_swapchains s),
            layer_views = RenderLayer_views_out rt s\<rparr>),
      (located rt s)\<lparr>calls := calls s @ RenderLayer_calls rt t s\<rparr>)"
proof -
  obtain res loc vel where v: "xrLocateSpace_view_reply rt = (res, loc, vel)"
    by (cases "xrLocateSpace_view_reply rt") auto
  obtain valid fl where l: "LatchFrame_reply rt = (valid, fl)"
    by (cases "LatchFrame_reply rt")
  define n where "n = length (m_swapchains s)"
  from ok have len: "length (lv_views (xrLocateViews_reply rt)) = n" "length (m_views s) = n"
      "m_configViews_size s = n" "n \<le> Side_COUNT"
    and res: "\<not> XR_FAILED (lv_result (xrLocateViews_reply rt))" "\<not> XR_FAILED res" "m_cloudxr s"
    and hands: "\<forall>hand \<in> set [LEFT, RIGHT]. \<not> XR_FAILED (fst (xrLocateSpace_aim_reply rt hand))"
    and views: "\<forall>i \<in> set [0 ..< n]. view_ok rt s i"
    using v by (simp_all add: RenderLayer_ok_def n_def)
  have vc: "view_calls rt fl (s\<lparr>m_views := lv_views (xrLocateViews_reply rt),
              mGsIndex := g\<rparr>) = view_calls rt fl (located rt s)" for g
    by (rule view_calls_cong) (simp_all add: located_def)
  have vo: "view_of (s\<lparr>m_views := lv_views (xrLocateViews_reply rt),
              mGsIndex := g\<rparr>) = view_of (located rt s)" for g
    by (rule view_of_cong) (simp_all add: located_def)
  have poses: "map (\<lambda>i. view_pose (lv_views (xrLocateViews_reply rt) ! i)) [0 ..< n]
      = map view_pose (lv_views (xrLocateViews_reply rt))"
    using len(1) by (intro nth_equalityI) simp_all
  have V: "RenderLayer_views rt fl pose [0 ..< n] plv
              (s\<lparr>m_views := lv_views (xrLocateViews_reply rt), mGsIndex := g, calls := c\<rparr>) =
            (Inr (fold (\<lambda>i l. l[i := view_of (located rt s) pose i]) [0 ..< n] plv),
             s\<lparr>m_views := lv_views (xrLocateViews_reply rt), mGsIndex := g,
               calls := c @ concat (map (view_calls rt fl (located rt s) pose) [0 ..< n])\<rparr>)"
    for pose plv g c
    using views by (subst RenderLayer_views_ok) (simp_all add: vc vo)
  have lp: "layer_poses rt = (if valid then replicate n (remote_pose rt)
                              else map view_pose (lv_views (xrLocateViews_reply rt)))"
    by (simp add: layer_poses_def l len)
  have rp: "remote_pose rt = \<lparr>orientation = cxrToQuaternion rt (poseMatrix fl),
                               position = cxrGetTranslation rt (poseMatrix fl)\<rparr>"
    by (simp add: remote_pose_def l)
  show ?thesis
    unfolding RenderLayer_def
    using len res
    by (simp add: xr_run Let_def v l RenderLayer_hands_ok [OF hands] n_def [symmetric]
          V poses fold_update_upt replace_pose map_replicate_const lp rp RenderLayer_views_out_def
          RenderLayer_calls_def located_def)
qed

lemma RenderLayer_hands_Inr:
  "RenderLayer_hands rt t hands handPose s = (Inr r, s') \<Longrightarrow>
   \<forall>hand \<in> set hands. \<not> XR_FAILED (fst (xrLocateSpace_aim_reply rt hand))"
proof (induction hands arbitrary: handPose s)
  case Nil
  then show ?case by simp
next
  case (Cons hand hands)
  from Cons.prems obtain s1 hp where
      "\<not> XR_FAILED (fst (xrLocateSpace_aim_reply rt hand))"
      "RenderLayer_hands rt t hands hp s1 = (Inr r, s')"
    by (auto simp: RenderLayer_hands.simps case_prod_beta
          dest!: xbind_InrD xseq_InrD xget_InrD emit_InrD CHECK_XRCMD_InrD split: if_splits)
  with Cons.IH show ?case by auto
qed

lemma RenderLayer_views_Inr:
  "RenderLayer_views rt fl pose is plv s = (Inr r, s') \<Longrightarrow> \<forall>i \<in> set is. view_ok rt s i"
proof (induction "is" arbitrary: plv s)
  case Nil
  then show ?case by simp
next
  case (Cons i "is")
  from Cons.prems obtain c plv1 where
      "view_ok rt s i"
      "RenderLayer_views rt fl pose is plv1 (s\<lparr>calls := c\<rparr>) = (Inr r, s')"
    by (auto simp: RenderLayer_views.simps case_prod_beta Let_def view_ok_def
          dest!: xbind_InrD xseq_InrD xget_InrD emit_InrD CHECK_XRCMD_InrD guard_InrD)
  with Cons.IH [of plv1 "s\<lparr>calls := c\<rparr>"] show ?case by auto
qed

lemma RenderLayer_hands_InrD:
  assumes "RenderLayer_hands rt t hands handPose s = (Inr r, s')"
  shows "(\<forall>hand \<in> set hands. \<not> XR_FAILED (fst (xrLocateSpace_aim_reply rt hand)))
         \<and> s' = s\<lparr>calls := calls s @ concat (map (hand_calls rt t s) hands)\<rparr>"
  using assms RenderLayer_hands_Inr [OF assms] by (simp add: RenderLayer_hands_ok)

lemma RenderLayer_views_InrD:
  assumes "RenderLayer_views rt fl pose is plv s = (Inr r, s')"
  shows "(\<forall>i \<in> set is. view_ok rt s i)
         \<and> s' = s\<lparr>calls := calls s @ concat (map (view_calls rt fl s pose) is)\<rparr>"
  using assms RenderLayer_views_Inr [OF assms] by (simp add: RenderLayer_views_ok)

lemma RenderLayer_Inr:
  assumes "RenderLayer rt t s = (Inr r, s')"
  shows "RenderLayer_ok rt s"
  using assms
  apply (simp add: RenderLayer_def case_prod_beta Let_def)
  apply (auto simp: RenderLayer_ok_def xthrow_run xreturn_run split: if_splits
      dest!: xbind_InrD xseq_InrD xget_InrD emit_InrD CHECK_XRCMD_InrD guard_InrD CHECK_InrD
             xmodify_InrD xreturn_InrD RenderLayer_hands_InrD RenderLayer_views_InrD)
  done

lemma RenderLayer_succeeds_calls:
  "RenderLayer_ok rt s \<Longrightarrow>
   RenderLayer rt t (s\<lparr>calls := c\<rparr>) =
     (Inr (True, RenderLayer_views_out rt s,
           \<lparr>layer_space = m_appSpace s, viewCount = length (m_swapchains s),
            layer_views = RenderLayer_views_out rt s\<rparr>),
      (located rt s)\<lparr>calls := c @ RenderLayer_calls rt t s\<rparr>)"
proof -
  assume ok: "RenderLayer_ok rt s"
  have 1: "RenderLayer_ok rt (s\<lparr>calls := c\<rparr>)"
    using ok by (simp add: RenderLayer_ok_def)
  have 2: "RenderLayer_views_out rt (s\<lparr>calls := c\<rparr>) = RenderLayer_views_out rt s"
    by (simp add: RenderLayer_views_out_def located_def
          view_of_cong [of "s\<lparr>calls := c, m_views := v, mGsIndex := g\<rparr>"
                           "s\<lparr>m_views := v, mGsIndex := g\<rparr>" for v g])
  have 3: "RenderLayer_calls rt t (s\<lparr>calls := c\<rparr>) = RenderLayer_calls rt t s"
    by (simp add: RenderLayer_calls_def located_def
          view_calls_cong [of "s\<lparr>calls := c, m_views := v, mGsIndex := g\<rparr>"
                           "s\<lparr>m_views := v, mGsIndex := g\<rparr>" for v g])
  show ?thesis
    by (simp add: RenderLayer_succeeds [OF 1] 2 3 located_def)
qed

lemma RenderFrame_succeeds:
  assumes ok: "RenderFrame_ok rt s"
  shows "RenderFrame rt s =
     (Inr (), (if shouldRender (snd (xrWaitFrame_reply rt)) = XR_TRUE then located rt s else s)
                \<lparr>calls := calls s @ RenderFrame_calls rt s\<rparr>)"
  using ok
  by (simp add: RenderFrame_def RenderFrame_ok_def xr_run case_prod_beta
        RenderLayer_succeeds_calls RenderFrame_calls_def located_def)

lemma RenderLayer_ok_calls [simp]: "RenderLayer_ok rt (s\<lparr>calls := c\<rparr>) = RenderLayer_ok rt s"
  by (simp add: RenderLayer_ok_def)

lemma RenderFrame_Inr:
  assumes "RenderFrame rt s = (Inr r, s')"
  shows "RenderFrame_ok rt s"
  using assms
  apply (simp add: RenderFrame_def case_prod_beta)
  apply (auto simp: RenderFrame_ok_def xthrow_run xreturn_run split: if_splits
      dest!: xbind_InrD xseq_InrD xget_InrD emit_InrD CHECK_XRCMD_InrD CHECK_InrD
             xmodify_InrD xreturn_InrD RenderLayer_Inr)
  done

lemma example_frame_ok: "RenderFrame_ok example_frame_replies example_program"
  by (simp add: RenderFrame_ok_def RenderLayer_ok_def view_ok_def example_frame_replies_def
        example_program_def XR_NULL_HANDLE_def XR_FAILED_def LEFT_def RIGHT_def Side_COUNT_def
        XR_TRUE_def)

lemma tick_calls_append [simp]: "tick_calls s (s1\<lparr>calls := calls s @ cs\<rparr>) = cs"
  by (simp add: tick_calls_def)

lemma RenderFrame_completed:
  assumes "RenderFrame rt s = (Inr (), s')"
  shows "s' = (if shouldRender (snd (xrWaitFrame_reply rt)) = XR_TRUE then located rt s else s)
                \<lparr>calls := calls s @ RenderFrame_calls rt s\<rparr>"
  using assms RenderFrame_succeeds [OF RenderFrame_Inr [OF assms]] by simp

lemma length_RenderLayer_views_out [simp]:
  "length (RenderLayer_views_out rt s) = length (m_swapchains s)"
  by (simp add: RenderLayer_views_out_def)

lemma pose_RenderLayer_views_out:
  "length (lv_views (xrLocateViews_reply rt)) = length (m_swapchains s) \<Longrightarrow>
   map plv_pose (RenderLayer_views_out rt s) = layer_poses rt"
  by (intro nth_equalityI) (simp_all add: RenderLayer_views_out_def view_of_def layer_poses_def)

text \<open>
  C1. In a frame that completes, is rendered, and in which \<^verbatim>\<open>LatchFrame\<close> returns a
  frame, the frame is ended with a layer whose views, one for each view of the
  configuration (both eyes), all carry the one pose decoded from the latched frame's
  \<^verbatim>\<open>poseMatrix\<close>: its orientation is \<^verbatim>\<open>cxrToQuaternion\<close> and its position
  \<^verbatim>\<open>cxrGetTranslation\<close> of that matrix, whatever \<^verbatim>\<open>xrLocateViews\<close> answered.
\<close>

theorem latched_pose_overrides_view_poses:
  assumes "RenderFrame rt s = (Inr (), s')"
      and "shouldRender (snd (xrWaitFrame_reply rt)) = XR_TRUE"
      and "fst (LatchFrame_reply rt)"
  shows "is_xrEndFrame (last (calls s'))
       \<and> map plv_pose (submitted_views (last (calls s'))) =
           replicate (length (m_views s))
             \<lparr>orientation = cxrToQuaternion rt (poseMatrix (snd (LatchFrame_reply rt))),
              position = cxrGetTranslation rt (poseMatrix (snd (LatchFrame_reply rt)))\<rparr>"
proof -
  from assms(1) have ok: "RenderFrame_ok rt s" by (rule RenderFrame_Inr)
  with assms(2) have lok: "RenderLayer_ok rt s" by (simp add: RenderFrame_ok_def)
  then have len: "length (lv_views (xrLocateViews_reply rt)) = length (m_swapchains s)"
      "length (lv_views (xrLocateViews_reply rt)) = length (m_views s)"
    by (simp_all add: RenderLayer_ok_def)
  show ?thesis
    using assms(2,3) len
    by (simp add: RenderFrame_completed [OF assms(1)] RenderFrame_calls_def
          pose_RenderLayer_views_out layer_poses_def remote_pose_def)
qed

text \<open>
  C2. In a frame that completes, is rendered, and in which \<^verbatim>\<open>LatchFrame\<close> returns
  not-available, the pose submitted for each eye is the pose \<^verbatim>\<open>xrLocateViews\<close>
  returned for that eye, which is the one held in \<^verbatim>\<open>m_views\<close>.
\<close>

theorem unlatched_frame_keeps_view_poses:
  assumes "RenderFrame rt s = (Inr (), s')"
      and "shouldRender (snd (xrWaitFrame_reply rt)) = XR_TRUE"
      and "\<not> fst (LatchFrame_reply rt)"
  shows "is_xrEndFrame (last (calls s'))
       \<and> map plv_pose (submitted_views (last (calls s'))) =
           map view_pose (lv_views (xrLocateViews_reply rt))
       \<and> m_views s' = lv_views (xrLocateViews_reply rt)
       \<and> length (m_views s') = length (m_views s)"
proof -
  from assms(1) have ok: "RenderFrame_ok rt s" by (rule RenderFrame_Inr)
  with assms(2) have lok: "RenderLayer_ok rt s" by (simp add: RenderFrame_ok_def)
  then have len: "length (lv_views (xrLocateViews_reply rt)) = length (m_swapchains s)"
      "length (lv_views (xrLocateViews_reply rt)) = length (m_views s)"
    by (simp_all add: RenderLayer_ok_def)
  show ?thesis
    using assms(2,3) len
    by (simp add: RenderFrame_completed [OF assms(1)] RenderFrame_calls_def
          pose_RenderLayer_views_out layer_poses_def located_def)
qed

lemma map_filter_append: "List.map_filter f (xs @ ys) = List.map_filter f xs @ List.map_filter f ys"
  by (simp add: List.map_filter_def)


lemma map_filter_concat_empty:
  "(\<And>x. List.map_filter g (f x) = []) \<Longrightarrow> List.map_filter g (concat (map f xs)) = []"
  by (induction xs) (simp_all add: map_filter_append)

lemma hand_calls_no_ReleaseFrame [simp]: "filter is_ReleaseFrame (hand_calls rt t s hand) = []"
  by (simp add: hand_calls_def)

lemma view_calls_no_ReleaseFrame [simp]: "filter is_ReleaseFrame (view_calls rt fl s pose i) = []"
  by (simp add: view_calls_def)

lemma hand_calls_no_texture [simp]: "List.map_filter rendered_texture (hand_calls rt t s hand) = []"
  by (simp add: hand_calls_def)

lemma hand_calls_no_handPose [simp]: "List.map_filter forwarded_handPose (hand_calls rt t s hand) = []"
  by (simp add: hand_calls_def)

lemma view_calls_no_handPose [simp]:
  "List.map_filter forwarded_handPose (view_calls rt fl s pose i) = []"
  by (simp add: view_calls_def)






lemma concat_map_upt_split:
  "i < n \<Longrightarrow> concat (map f [0 ..< n]) =
     concat (map f [0 ..< i]) @ f i @ concat (map f [Suc i ..< n])"
proof -
  assume "i < n"
  then have "[0 ..< n] = [0 ..< i] @ i # [Suc i ..< n]"
    by (metis less_imp_le_nat upt_add_eq_append upt_conv_Cons le_add_diff_inverse zero_le add_0)
  then show ?thesis by simp
qed

text \<open>
  The view state flags have no influence on \<^verbatim>\<open>RenderLayer\<close>.
\<close>

lemma RenderLayer_hands_replies:
  assumes "xrLocateSpace_aim_reply rt' = xrLocateSpace_aim_reply rt"
  shows "RenderLayer_hands rt' t hands handPose = RenderLayer_hands rt t hands handPose"
proof (induction hands arbitrary: handPose)
  case Nil
  show ?case by (simp add: RenderLayer_hands.simps)
next
  case (Cons hand hands)
  show ?case
    unfolding RenderLayer_hands.simps Cons.IH assms by (rule refl)
qed

lemma RenderLayer_views_replies:
  assumes "xrAcquireSwapchainImage_reply rt' = xrAcquireSwapchainImage_reply rt"
      and "xrWaitSwapchainImage_result rt' = xrWaitSwapchainImage_result rt"
      and "xrReleaseSwapchainImage_result rt' = xrReleaseSwapchainImage_result rt"
  shows "RenderLayer_views rt' fl pose is plv = RenderLayer_views rt fl pose is plv"
proof (induction "is" arbitrary: plv)
  case Nil
  show ?case by (simp add: RenderLayer_views.simps)
next
  case (Cons i "is")
  show ?case
    unfolding RenderLayer_views.simps Cons.IH assms by (rule refl)
qed

lemma RenderLayer_ignores_view_state_flags:
  "RenderLayer (rt\<lparr>xrLocateViews_reply := (xrLocateViews_reply rt)\<lparr>viewStateFlags := flags\<rparr>\<rparr>) t
     = RenderLayer rt t"
proof -
  let ?rt' = "rt\<lparr>xrLocateViews_reply := (xrLocateViews_reply rt)\<lparr>viewStateFlags := flags\<rparr>\<rparr>"
  have h: "RenderLayer_hands ?rt' = RenderLayer_hands rt"
    by (intro ext RenderLayer_hands_replies) simp
  have v: "RenderLayer_views ?rt' = RenderLayer_views rt"
    by (intro ext RenderLayer_views_replies) simp_all
  show ?thesis
    unfolding RenderLayer_def Let_def h v
    by (simp split del: if_split cong: if_cong)
qed

text \<open>
  C4. Let no call of the frame fail, let the frame be rendered, and let both the
  position-valid and the orientation-valid bit of the located view state be unset. Then
  \<^verbatim>\<open>RenderLayer\<close> returns true, \<^verbatim>\<open>RenderFrame\<close> completes and ends the frame with
  one layer of as many views as the configuration has, and for each view its swapchain
  image is acquired, waited for, rendered to and released, in this order.
\<close>

theorem invalid_view_state_still_submits:
  assumes "RenderFrame_ok rt s"
      and "shouldRender (snd (xrWaitFrame_reply rt)) = XR_TRUE"
      and "viewStateFlags (xrLocateViews_reply rt) AND XR_VIEW_STATE_POSITION_VALID_BIT = 0"
      and "viewStateFlags (xrLocateViews_reply rt) AND XR_VIEW_STATE_ORIENTATION_VALID_BIT = 0"
  shows "(\<exists>views layer s1. RenderLayer rt t s = (Inr (True, views, layer), s1))
       \<and> fst (RenderFrame rt s) = Inr ()
       \<and> map_option (map viewCount) (submitted_layers (last (calls (snd (RenderFrame rt s)))))
           = Some [length (m_views s)]
       \<and> (\<forall>i < length (m_views s). \<exists>before view img after.
             tick_calls s (snd (RenderFrame rt s)) =
               before
               @ [xrAcquireSwapchainImage (handle (m_swapchains s ! i)),
                  xrWaitSwapchainImage (handle (m_swapchains s ! i)),
                  RenderView view img (m_colorSwapchainFormat s)
                    (texture (frames (snd (LatchFrame_reply rt)) i)),
                  xrReleaseSwapchainImage (handle (m_swapchains s ! i))]
               @ after)"
proof -
  from assms(1,2) have lok: "RenderLayer_ok rt s"
    by (simp add: RenderFrame_ok_def)
  then have len: "length (m_swapchains s) = length (m_views s)"
    by (simp add: RenderLayer_ok_def)
  have layer: "\<exists>views layer s1. RenderLayer rt t s = (Inr (True, views, layer), s1)"
    by (simp add: RenderLayer_succeeds [OF lok])
  have run: "RenderFrame rt s = (Inr (), (located rt s)\<lparr>calls := calls s @ RenderFrame_calls rt s\<rparr>)"
    using assms(2) by (simp add: RenderFrame_succeeds [OF assms(1)])
  have views: "\<exists>before view img after.
      RenderFrame_calls rt s =
        before
        @ [xrAcquireSwapchainImage (handle (m_swapchains s ! i)),
           xrWaitSwapchainImage (handle (m_swapchains s ! i)),
           RenderView view img (m_colorSwapchainFormat s)
             (texture (frames (snd (LatchFrame_reply rt)) i)),
           xrReleaseSwapchainImage (handle (m_swapchains s ! i))]
        @ after"
    if "i < length (m_views s)" for i
  proof -
    let ?f = "view_calls rt (snd (LatchFrame_reply rt)) (located rt s) (layer_poses rt)"
    from that len have i: "i < length (m_swapchains s)" by simp
    have "\<exists>a b. RenderFrame_calls rt s = a @ ?f i @ b"
      using assms(2)
      by (simp add: RenderFrame_calls_def RenderLayer_calls_def concat_map_upt_split [OF i])
         (metis append.assoc append_Cons)
    then obtain a b where "RenderFrame_calls rt s = a @ ?f i @ b" by blast
    then show ?thesis
      by (auto simp: view_calls_def located_def)
  qed
  show ?thesis
    using layer views
    by (simp add: run RenderFrame_calls_def assms(2) len)
qed

text \<open>
  C5, as the code has it. In a frame that completes and is rendered,
  \<^verbatim>\<open>SetSenserPoseState\<close> is called once, and the hand poses it forwards are the aim
  poses located in this frame, left before right, of those hands whose query returned
  \<^verbatim>\<open>XR_SUCCESS\<close> with both validity bits set. A hand whose query is invalid is left
  out of the list, whatever the earlier frames located: no pose is kept between frames.
\<close>

theorem forwarded_hands_are_those_located_now:
  assumes "RenderFrame rt s = (Inr (), s')"
      and "shouldRender (snd (xrWaitFrame_reply rt)) = XR_TRUE"
  shows "List.map_filter forwarded_handPose (tick_calls s s') =
     [concat (map (\<lambda>hand. case xrLocateSpace_aim_reply rt hand of (res, spaceLocation) \<Rightarrow>
                 if XR_UNQUALIFIED_SUCCESS res
                    \<and> locationFlags spaceLocation AND XR_SPACE_LOCATION_POSITION_VALID_BIT \<noteq> 0
                    \<and> locationFlags spaceLocation AND XR_SPACE_LOCATION_ORIENTATION_VALID_BIT \<noteq> 0
                 then [loc_pose spaceLocation] else [])
              [LEFT, RIGHT])]"
proof -
  have "List.map_filter forwarded_handPose (RenderFrame_calls rt s) =
      [concat (map (hand_pose rt) [LEFT, RIGHT])]"
    using assms(2)
    by (simp add: RenderFrame_calls_def RenderLayer_calls_def map_filter_append
          map_filter_concat_empty)
  then show ?thesis
    by (simp add: RenderFrame_completed [OF assms(1)] hand_pose_def)
qed

lemmas example_defs = example_frame_replies_def example_program_def example_frames_latched_def
  left_lost_replies_def no_frame_replies_def invalid_views_replies_def

lemmas ok_defs = RenderFrame_ok_def RenderLayer_ok_def view_ok_def XR_NULL_HANDLE_def XR_FAILED_def
  LEFT_def RIGHT_def Side_COUNT_def XR_TRUE_def

lemma no_frame_ok: "RenderFrame_ok no_frame_replies example_program"
  by (simp add: ok_defs example_defs)

lemma invalid_views_ok: "RenderFrame_ok invalid_views_replies example_program"
  by (simp add: ok_defs example_defs)

lemma example_frame_runs:
  "RenderFrame example_frame_replies example_program = (Inr (), after_first_frame)"
  by (simp add: after_first_frame_def RenderFrame_succeeds [OF example_frame_ok])

lemma no_frame_runs:
  "RenderFrame no_frame_replies example_program = (Inr (), after_unlatched_frame)"
  by (simp add: after_unlatched_frame_def RenderFrame_succeeds [OF no_frame_ok])

lemma after_first_frame_eq:
  "after_first_frame = (located example_frame_replies example_program)
     \<lparr>calls := calls example_program @ RenderFrame_calls example_frame_replies example_program\<rparr>"
proof -
  have "shouldRender (snd (xrWaitFrame_reply example_frame_replies)) = XR_TRUE"
    by (simp add: example_defs XR_TRUE_def)
  with RenderFrame_completed [OF example_frame_runs] show ?thesis by simp
qed

lemma left_lost_ok: "RenderFrame_ok left_lost_replies after_first_frame"
  by (simp add: after_first_frame_eq located_def ok_defs example_defs)

lemma left_lost_runs:
  "RenderFrame left_lost_replies after_first_frame = (Inr (), after_second_frame)"
  by (simp add: after_second_frame_def RenderFrame_succeeds [OF left_lost_ok])

text \<open>
  The latched example frame: both eyes are submitted with the pose of the latched frame,
  position (1/2, 3/2, -2), not with the located view positions (-3/100, 8/5, 0) and
  (3/100, 8/5, 0).
\<close>

theorem latched_pose_overrides_view_poses_witness:
  "RenderFrame example_frame_replies example_program = (Inr (), after_first_frame)
   \<and> shouldRender (snd (xrWaitFrame_reply example_frame_replies)) = XR_TRUE
   \<and> fst (LatchFrame_reply example_frame_replies)
   \<and> map plv_pose (submitted_views (last (calls after_first_frame))) =
        [\<lparr>orientation = (0, 0, 0, 1), position = (1/2, 3/2, -2)\<rparr>,
         \<lparr>orientation = (0, 0, 0, 1), position = (1/2, 3/2, -2)\<rparr>]"
proof -
  have h2: "shouldRender (snd (xrWaitFrame_reply example_frame_replies)) = XR_TRUE"
    by (simp add: example_defs XR_TRUE_def)
  have h3: "fst (LatchFrame_reply example_frame_replies)"
    by (simp add: example_defs)
  show ?thesis
    using example_frame_runs h2 h3
      latched_pose_overrides_view_poses [OF example_frame_runs h2 h3]
    by (simp add: example_defs)
qed

theorem unlatched_frame_keeps_view_poses_witness:
  "RenderFrame no_frame_replies example_program = (Inr (), after_unlatched_frame)
   \<and> shouldRender (snd (xrWaitFrame_reply no_frame_replies)) = XR_TRUE
   \<and> \<not> fst (LatchFrame_reply no_frame_replies)
   \<and> map plv_pose (submitted_views (last (calls after_unlatched_frame))) =
        [\<lparr>orientation = (0, 0, 0, 1), position = (-3/100, 8/5, 0)\<rparr>,
         \<lparr>orientation = (0, 0, 0, 1), position = (3/100, 8/5, 0)\<rparr>]"
proof -
  have h2: "shouldRender (snd (xrWaitFrame_reply no_frame_replies)) = XR_TRUE"
    by (simp add: example_defs XR_TRUE_def)
  have h3: "\<not> fst (LatchFrame_reply no_frame_replies)"
    by (simp add: example_defs)
  show ?thesis
    using no_frame_runs h2 h3
      unlatched_frame_keeps_view_poses [OF no_frame_runs h2 h3]
    by (simp add: example_defs)
qed



theorem invalid_view_state_still_submits_witness:
  "RenderFrame_ok invalid_views_replies example_program
   \<and> shouldRender (snd (xrWaitFrame_reply invalid_views_replies)) = XR_TRUE
   \<and> viewStateFlags (xrLocateViews_reply invalid_views_replies)
        AND XR_VIEW_STATE_POSITION_VALID_BIT = 0
   \<and> viewStateFlags (xrLocateViews_reply invalid_views_replies)
        AND XR_VIEW_STATE_ORIENTATION_VALID_BIT = 0
   \<and> fst (RenderFrame invalid_views_replies example_program) = Inr ()
   \<and> map_option (map viewCount)
        (submitted_layers (last (calls (snd (RenderFrame invalid_views_replies example_program)))))
       = Some [2]"
proof -
  have h2: "shouldRender (snd (xrWaitFrame_reply invalid_views_replies)) = XR_TRUE"
    by (simp add: example_defs XR_TRUE_def)
  have h3: "viewStateFlags (xrLocateViews_reply invalid_views_replies)
        AND XR_VIEW_STATE_POSITION_VALID_BIT = 0"
    by (simp add: example_defs)
  have h4: "viewStateFlags (xrLocateViews_reply invalid_views_replies)
        AND XR_VIEW_STATE_ORIENTATION_VALID_BIT = 0"
    by (simp add: example_defs)
  have n: "length (m_views example_program) = 2"
    by (simp add: example_program_def)
  show ?thesis
    using invalid_views_ok h2 h3 h4
      invalid_view_state_still_submits [OF invalid_views_ok h2 h3 h4]
    by (simp add: n)
qed

theorem forwarded_hands_are_those_located_now_witness:
  "RenderFrame left_lost_replies after_first_frame = (Inr (), after_second_frame)
   \<and> shouldRender (snd (xrWaitFrame_reply left_lost_replies)) = XR_TRUE
   \<and> List.map_filter forwarded_handPose (tick_calls after_first_frame after_second_frame) =
       [[\<lparr>orientation = (0, 0, 0, 1), position = (1/4, 1, -3/10)\<rparr>]]"
proof -
  have h2: "shouldRender (snd (xrWaitFrame_reply left_lost_replies)) = XR_TRUE"
    by (simp add: example_defs XR_TRUE_def)
  show ?thesis
    using left_lost_runs h2
      forwarded_hands_are_those_located_now [OF left_lost_runs h2]
    by (simp add: example_defs LEFT_def RIGHT_def XR_UNQUALIFIED_SUCCESS_def
          XR_SPACE_LOCATION_POSITION_VALID_BIT_def XR_SPACE_LOCATION_ORIENTATION_VALID_BIT_def)
qed

text \<open>
  C5 as it is worded fails. In the first frame both hands are located and forwarded. In the
  second frame the left hand's query has no validity bit set: the list forwarded in that
  frame holds the right hand's pose only; the left hand's pose of the first frame,
  position (-1/5, 1, -3/10), is not forwarded again.
\<close>

theorem stale_hand_pose_counterexample:
  "RenderFrame example_frame_replies example_program = (Inr (), after_first_frame)
   \<and> List.map_filter forwarded_handPose (tick_calls example_program after_first_frame) =
       [[\<lparr>orientation = (0, 0, 0, 1), position = (-1/5, 1, -3/10)\<rparr>,
         \<lparr>orientation = (0, 0, 0, 1), position = (1/5, 1, -3/10)\<rparr>]]
   \<and> locationFlags (snd (xrLocateSpace_aim_reply left_lost_replies LEFT)) = 0
   \<and> RenderFrame left_lost_replies after_first_frame = (Inr (), after_second_frame)
   \<and> List.map_filter forwarded_handPose (tick_calls after_first_frame after_second_frame) =
       [[\<lparr>orientation = (0, 0, 0, 1), position = (1/4, 1, -3/10)\<rparr>]]"
proof -
  have a: "tick_calls example_program after_first_frame
      = RenderFrame_calls example_frame_replies example_program"
    by (simp add: RenderFrame_completed [OF example_frame_runs])
  have b: "tick_calls after_first_frame after_second_frame
      = RenderFrame_calls left_lost_replies after_first_frame"
    by (simp add: RenderFrame_completed [OF left_lost_runs])
  have c: "List.map_filter forwarded_handPose (RenderFrame_calls rt s) =
      [concat (map (hand_pose rt) [LEFT, RIGHT])]"
    if "shouldRender (snd (xrWaitFrame_reply rt)) = XR_TRUE" for rt s
    using that
    by (simp add: RenderFrame_calls_def RenderLayer_calls_def map_filter_append
          map_filter_concat_empty)
  have r1: "shouldRender (snd (xrWaitFrame_reply example_frame_replies)) = XR_TRUE"
    by (simp add: example_defs XR_TRUE_def)
  have r2: "shouldRender (snd (xrWaitFrame_reply left_lost_replies)) = XR_TRUE"
    by (simp add: example_defs XR_TRUE_def)
  have first: "List.map_filter forwarded_handPose (tick_calls example_program after_first_frame) =
       [[\<lparr>orientation = (0, 0, 0, 1), position = (-1/5, 1, -3/10)\<rparr>,
         \<lparr>orientation = (0, 0, 0, 1), position = (1/5, 1, -3/10)\<rparr>]]"
    unfolding a c [OF r1]
    by (simp add: hand_pose_def example_frame_replies_def LEFT_def RIGHT_def
          XR_UNQUALIFIED_SUCCESS_def XR_SPACE_LOCATION_POSITION_VALID_BIT_def
          XR_SPACE_LOCATION_ORIENTATION_VALID_BIT_def)
  have second: "List.map_filter forwarded_handPose (tick_calls after_first_frame after_second_frame) =
       [[\<lparr>orientation = (0, 0, 0, 1), position = (1/4, 1, -3/10)\<rparr>]]"
    unfolding b c [OF r2]
    by (simp add: hand_pose_def left_lost_replies_def LEFT_def RIGHT_def
          XR_UNQUALIFIED_SUCCESS_def XR_SPACE_LOCATION_POSITION_VALID_BIT_def
          XR_SPACE_LOCATION_ORIENTATION_VALID_BIT_def)
  have lost: "locationFlags (snd (xrLocateSpace_aim_reply left_lost_replies LEFT)) = 0"
    by (simp add: left_lost_replies_def LEFT_def)
  show ?thesis
    using example_frame_runs left_lost_runs first second lost by blast
qed

section \<open>Properties of the input relay\<close>

text \<open>
  Two values of the hand scale as \<^verbatim>\<open>float\<close> computes them: the quotient
  \<^verbatim>\<open>0.01f / 0.1f\<close> is not 1/10, and for a grab value of 1/16777216 the difference
  \<^verbatim>\<open>1.0f - 0.5f * grabValue.currentState\<close> rounds to 1.
\<close>

lemma touchpad_pressed_scale:
  "float_div (binary32 (1/100)) (binary32 (1/10)) = 3355443 / 33554432"
  by code_simp

lemma grab_scale_rounds:
  "float_sub 1 (float_mul (1/2) (1/16777216)) = 1"
  by code_simp

lemma silent_refl [simp]: "silent s s"
  by (simp add: silent_def)

lemma silent_trans: "silent s s1 \<Longrightarrow> silent s1 s2 \<Longrightarrow> silent s s2"
  by (auto simp: silent_def map_filter_append)

lemma results_xreturn: "Q v \<Longrightarrow> results (xreturn v) Q"
  by (simp add: results_def xreturn_def)

lemma results_xbind:
  "results m P \<Longrightarrow> (\<And>v. P v \<Longrightarrow> results (f v) Q) \<Longrightarrow> results (xbind m f) Q"
  unfolding results_def
  by (auto dest!: xbind_InrD intro: silent_trans) (blast intro: silent_trans)+

lemma results_xseq:
  "results m P \<Longrightarrow> results n Q \<Longrightarrow> results (xseq m n) Q"
  unfolding xseq_def by (rule results_xbind)

lemmas block_simps = results_def xr_run set_handScale_def silent_def case_prod_beta

lemma results_poll_grab: "results (poll_grab rt hand) (\<lambda>_. True)"
  by (auto simp: poll_grab_def block_simps split: if_splits)

lemma results_poll_quit: "results (poll_quit rt hand) (\<lambda>_. True)"
  by (auto simp: poll_quit_def block_simps split: if_splits)

lemma results_poll_scale_button:
  "results (poll_scale_button rt a hand pressedScale pressed released) (\<lambda>_. True)"
  by (auto simp: poll_scale_button_def block_simps split: if_splits)

lemma results_poll_battery: "results (poll_battery rt hand) (\<lambda>_. True)"
  by (auto simp: poll_battery_def block_simps split: if_splits)

lemma results_poll_touch: "results (poll_touch rt a hand message) (\<lambda>_. True)"
  by (auto simp: poll_touch_def block_simps split: if_splits)

lemma results_poll_pose: "results (poll_pose rt hand) (\<lambda>_. True)"
  by (auto simp: poll_pose_def block_simps split: if_splits)

lemma results_poll_home:
  "results (poll_home cc rt hand trackingState)
     (\<lambda>r. r = or_bit (pressed_now rt homeAction hand) hand (cxrButton_System cc) trackingState)"
  by (auto simp: poll_home_def block_simps or_bit_def pressed_now_def split: if_splits)

lemma results_poll_trigger_touch:
  "results (poll_trigger_touch cc rt hand trackingState)
     (\<lambda>r. r = or_bit (pressed_now rt TriggerTouchAction hand) hand (cxrButton_Trigger_Touch cc)
                trackingState)"
  by (auto simp: poll_trigger_touch_def block_simps or_bit_def pressed_now_def split: if_splits)

lemma results_poll_button:
  "results (poll_button rt a hand pressedScale button pressed released trackingState)
     (\<lambda>r. r = or_bit (pressed_now rt a hand) hand button trackingState)"
  by (auto simp: poll_button_def block_simps or_bit_def pressed_now_def split: if_splits)

lemma results_poll_back:
  "results (poll_back rt hand ret) (\<lambda>r. r = (ret \<or> released_now rt backAction hand))"
  by (auto simp: poll_back_def block_simps released_now_def split: if_splits)

lemma results_poll_scalar:
  "results (poll_scalar rt a hand analog trackingState)
     (\<lambda>r. r = copy_scalar (float_active rt a hand) hand analog
                 (currentState (snd (xrGetActionStateFloat_reply rt a hand))) trackingState)"
  by (auto simp: poll_scalar_def block_simps copy_scalar_def float_active_def split: if_splits)

lemma results_poll_joystick:
  "results (poll_joystick cc rt hand trackingState)
     (\<lambda>r. r = copy_scalar (joystick_active rt hand) hand (cxrAnalog_JoystickY cc)
                 (snd (currentState (snd (xrGetActionStateVector2f_reply rt joystickAction hand))))
              (copy_scalar (joystick_active rt hand) hand (cxrAnalog_JoystickX cc)
                 (fst (currentState (snd (xrGetActionStateVector2f_reply rt joystickAction hand))))
                 trackingState))"
  by (auto simp: poll_joystick_def block_simps copy_scalar_def joystick_active_def split: if_splits)

lemma results_PollActions_hand:
  "results (PollActions_hand cc rt hand (ret, trackingState))
     (\<lambda>r. r = (ret \<or> released_now rt backAction hand, hand_snapshot cc rt hand trackingState))"
  unfolding PollActions_hand_def prod.case
  apply (rule results_xseq results_xbind results_poll_grab results_poll_quit
      results_poll_scale_button results_poll_battery results_poll_touch results_poll_pose
      results_poll_home results_poll_trigger_touch results_poll_button results_poll_back
      results_poll_scalar results_poll_joystick)+
  apply (rule results_xreturn)
  apply (simp add: hand_snapshot_def)
  done

declare PollActions_hands.simps [simp del]

lemma results_PollActions_hands:
  "results (PollActions_hands cc rt [LEFT, RIGHT] (False, zero_trackingState))
     (\<lambda>r. r = (released_now rt backAction LEFT \<or> released_now rt backAction RIGHT,
                hand_snapshot cc rt RIGHT (hand_snapshot cc rt LEFT zero_trackingState)))"
  unfolding PollActions_hands.simps
  apply (rule results_xbind [OF results_PollActions_hand])
  apply simp
  apply (rule results_xbind [OF results_PollActions_hand])
  apply (rule results_xreturn)
  apply simp
  done

lemma PollActions_Inr:
  assumes "PollActions cc rt s = (Inr ret, s')"
  shows "ret = (released_now rt backAction LEFT \<or> released_now rt backAction RIGHT)
       \<and> forwarded_snapshots s s' =
           (if m_cloudxr s
            then [hand_snapshot cc rt RIGHT (hand_snapshot cc rt LEFT zero_trackingState)]
            else [])
       \<and> m_cloudxr s' = m_cloudxr s"
proof -
  let ?ts = "hand_snapshot cc rt RIGHT (hand_snapshot cc rt LEFT zero_trackingState)"
  let ?s1 = "s\<lparr>handActive := (handActive s)(LEFT := XR_FALSE, RIGHT := XR_FALSE),
               calls := calls s @ [xrSyncActions]\<rparr>"
  from assms obtain r ts s2 where
      h: "PollActions_hands cc rt [LEFT, RIGHT] (False, zero_trackingState) ?s1 = (Inr (r, ts), s2)"
    and f: "(if m_cloudxr s2 then emit (SetTrackingState ts) else xreturn ()) s2 = (Inr (), s')"
    and ret: "ret = r"
    by (auto simp: PollActions_def case_prod_beta
          dest!: xseq_InrD xbind_InrD xmodify_InrD emit_InrD CHECK_XRCMD_InrD xget_InrD xreturn_InrD)
  from results_PollActions_hands [unfolded results_def, rule_format, OF h]
  have v: "r = (released_now rt backAction LEFT \<or> released_now rt backAction RIGHT)" "ts = ?ts"
    and q: "silent ?s1 s2"
    by simp_all
  from q obtain cs where c: "m_cloudxr s2 = m_cloudxr s"
      "calls s2 = calls s @ xrSyncActions # cs" "List.map_filter forwarded_tracking cs = []"
    by (auto simp: silent_def)
  from f c have "calls s' = calls s @ xrSyncActions # cs @ (if m_cloudxr s then [SetTrackingState ts] else [])"
    and m: "m_cloudxr s' = m_cloudxr s"
    by (auto simp: xr_run split: if_splits)
  then have "forwarded_snapshots s s' = (if m_cloudxr s then [ts] else [])"
    using c(3) by (simp add: forwarded_snapshots_def tick_calls_def map_filter_append)
  with v ret m show ?thesis by simp
qed

lemma bit_or_bit:
  "bit (booleanComps (controller (or_bit b hand button ts) h)) n \<longleftrightarrow>
     bit (booleanComps (controller ts h)) n \<or> (b \<and> h = hand \<and> n = button \<and> n < 64)"
  by (auto simp: or_bit_def set_button_def bit_or_iff bit_exp_iff possible_bit_word)

lemma booleanComps_copy_scalar:
  "booleanComps (controller (copy_scalar b hand analog v ts) h) = booleanComps (controller ts h)"
  by (simp add: copy_scalar_def set_scalar_def)

lemma scalarComps_or_bit:
  "scalarComps (controller (or_bit b hand button ts) h) = scalarComps (controller ts h)"
  by (simp add: or_bit_def set_button_def)

lemma scalarComps_copy_scalar:
  "scalarComps (controller (copy_scalar b hand analog v ts) h) j =
     (if b \<and> h = hand \<and> j = analog then v else scalarComps (controller ts h) j)"
  by (simp add: copy_scalar_def set_scalar_def)

lemmas snapshot_simps = bit_or_bit booleanComps_copy_scalar scalarComps_or_bit scalarComps_copy_scalar

lemma bit_zero_trackingState: "\<not> bit (booleanComps (controller zero_trackingState h)) n"
  by (simp add: zero_trackingState_def)

lemma scalar_zero_trackingState: "scalarComps (controller zero_trackingState h) j = 0"
  by (simp add: zero_trackingState_def)

text \<open>
  What one pass of the loop body adds to the snapshot: a bit for each pressed control
  mapped to it, and nothing in a slot all of whose controls are inactive.
\<close>

lemma bit_hand_snapshot:
  "bit (booleanComps (controller (hand_snapshot cc rt hand ts) h)) n \<longleftrightarrow>
     bit (booleanComps (controller ts h)) n
     \<or> (h = hand \<and> n < 64
        \<and> (\<exists>(a, button) \<in> set (button_controls cc). button = n \<and> pressed_now rt a hand))"
  unfolding hand_snapshot_def snapshot_simps button_controls_def
  by (simp only: list.set bex_simps ball_simps split_conv insert_iff Un_iff) blast

lemma scalar_hand_snapshot:
  assumes "h = hand \<longrightarrow>
           (\<forall>(active, analog) \<in> set (analog_controls cc rt hand). analog = slot \<longrightarrow> \<not> active)"
  shows "scalarComps (controller (hand_snapshot cc rt hand ts) h) slot =
           scalarComps (controller ts h) slot"
proof -
  from assms have
    "\<not> (float_active rt triggerAction hand \<and> h = hand \<and> slot = cxrAnalog_Trigger cc)"
    "\<not> (joystick_active rt hand \<and> h = hand \<and> slot = cxrAnalog_JoystickX cc)"
    "\<not> (joystick_active rt hand \<and> h = hand \<and> slot = cxrAnalog_JoystickY cc)"
    "\<not> (float_active rt GripAction hand \<and> h = hand \<and> slot = cxrAnalog_Grip cc)"
    by (auto simp: analog_controls_def float_active_def joystick_active_def)
  then show ?thesis
    unfolding hand_snapshot_def
    by (simp only: scalarComps_or_bit scalarComps_copy_scalar if_False)
qed

text \<open>
  C8. Let \<^verbatim>\<open>PollActions\<close> return, with a CloudXR client present. Then one snapshot
  is forwarded, and for either hand a bit of its \<^verbatim>\<open>booleanComps\<close> is set exactly
  when some control mapped to that bit (home/System, trigger touch, B, Y, A, X) was sampled
  on this tick with \<^verbatim>\<open>isActive\<close>, \<^verbatim>\<open>changedSinceLastSync\<close> and
  \<^verbatim>\<open>currentState\<close> all true. So a bit is set only by a rising edge, and on a
  following tick where the state is still true but \<^verbatim>\<open>changedSinceLastSync\<close> is
  false the control does not set it again. This holds whatever the enumerators are.
\<close>

theorem button_bit_set_only_on_rising_edge:
  assumes "PollActions cc rt s = (Inr ret, s')"
      and "m_cloudxr s"
      and "hand = LEFT \<or> hand = RIGHT"
  shows "\<exists>trackingState. forwarded_snapshots s s' = [trackingState]
           \<and> (\<forall>b. bit (booleanComps (controller trackingState hand)) b \<longleftrightarrow>
                 b < 64
                 \<and> (\<exists>(a, button) \<in> set (button_controls cc). button = b
                      \<and> isActive (snd (xrGetActionStateBoolean_reply rt a hand)) = XR_TRUE
                      \<and> changedSinceLastSync (snd (xrGetActionStateBoolean_reply rt a hand)) = XR_TRUE
                      \<and> currentState (snd (xrGetActionStateBoolean_reply rt a hand)) = XR_TRUE))"
proof -
  let ?ts = "hand_snapshot cc rt RIGHT (hand_snapshot cc rt LEFT zero_trackingState)"
  from PollActions_Inr [OF assms(1)] assms(2)
  have f: "forwarded_snapshots s s' = [?ts]" by simp
  have "bit (booleanComps (controller ?ts hand)) b \<longleftrightarrow>
          b < 64 \<and> (\<exists>(a, button) \<in> set (button_controls cc). button = b \<and> pressed_now rt a hand)"
    for b
    using assms(3) unfolding bit_hand_snapshot
    by (auto simp: bit_zero_trackingState LEFT_def RIGHT_def)
  with f show ?thesis
    by (simp add: pressed_now_def)
qed

text \<open>
  C9. When \<^verbatim>\<open>PollActions\<close> returns, it returns true exactly when the back button of
  one of the hands was sampled with \<^verbatim>\<open>isActive\<close> and \<^verbatim>\<open>changedSinceLastSync\<close> true
  and \<^verbatim>\<open>currentState\<close> not true (for an \<^verbatim>\<open>XrBool32\<close>, which is
  \<^verbatim>\<open>XR_TRUE\<close> or \<^verbatim>\<open>XR_FALSE\<close>, false): on the release edge, not on the press edge
  and not while the state does not change.
\<close>

theorem PollActions_returns_back_release:
  assumes "PollActions cc rt s = (Inr ret, s')"
  shows "ret \<longleftrightarrow>
           (isActive (snd (xrGetActionStateBoolean_reply rt backAction LEFT)) = XR_TRUE
            \<and> changedSinceLastSync (snd (xrGetActionStateBoolean_reply rt backAction LEFT)) = XR_TRUE
            \<and> currentState (snd (xrGetActionStateBoolean_reply rt backAction LEFT)) \<noteq> XR_TRUE)
         \<or> (isActive (snd (xrGetActionStateBoolean_reply rt backAction RIGHT)) = XR_TRUE
            \<and> changedSinceLastSync (snd (xrGetActionStateBoolean_reply rt backAction RIGHT)) = XR_TRUE
            \<and> currentState (snd (xrGetActionStateBoolean_reply rt backAction RIGHT)) \<noteq> XR_TRUE)"
  using PollActions_Inr [OF assms] by (simp add: released_now_def)

text \<open>
  C10, as the code has it. Let \<^verbatim>\<open>PollActions\<close> return, with a CloudXR client
  present. In the snapshot forwarded on this tick, for either hand, an analog slot is zero
  when every control that writes it (trigger, joystick, grip) is inactive, and a bit is
  clear when every button mapped to it is inactive: the snapshot starts from zero on every
  tick, an inactive control writes nothing, and nothing of the tick before is held. This
  holds whatever the enumerators are.
\<close>

theorem inactive_control_is_zero_in_snapshot:
  assumes "PollActions cc rt s = (Inr ret, s')"
      and "m_cloudxr s"
      and "hand = LEFT \<or> hand = RIGHT"
  shows "\<exists>trackingState. forwarded_snapshots s s' = [trackingState]
           \<and> (\<forall>slot. (\<forall>(active, analog) \<in> set (analog_controls cc rt hand).
                           analog = slot \<longrightarrow> \<not> active) \<longrightarrow>
                 scalarComps (controller trackingState hand) slot = 0)
           \<and> (\<forall>b. (\<forall>(a, button) \<in> set (button_controls cc). button = b \<longrightarrow>
                        isActive (snd (xrGetActionStateBoolean_reply rt a hand)) \<noteq> XR_TRUE) \<longrightarrow>
                 \<not> bit (booleanComps (controller trackingState hand)) b)"
proof -
  let ?ts = "hand_snapshot cc rt RIGHT (hand_snapshot cc rt LEFT zero_trackingState)"
  from PollActions_Inr [OF assms(1)] assms(2)
  have f: "forwarded_snapshots s s' = [?ts]" by simp
  have b: "\<not> bit (booleanComps (controller ?ts hand)) b"
    if "\<forall>(a, button) \<in> set (button_controls cc). button = b \<longrightarrow>
          isActive (snd (xrGetActionStateBoolean_reply rt a hand)) \<noteq> XR_TRUE" for b
  proof -
    from that have "\<not> (\<exists>(a, button) \<in> set (button_controls cc). button = b \<and> pressed_now rt a hand)"
      by (auto simp: pressed_now_def)
    with assms(3) show ?thesis
      unfolding bit_hand_snapshot
      by (auto simp: bit_zero_trackingState LEFT_def RIGHT_def)
  qed
  have a: "scalarComps (controller ?ts hand) slot = 0"
    if "\<forall>(active, analog) \<in> set (analog_controls cc rt hand). analog = slot \<longrightarrow> \<not> active"
    for slot
    using that by (simp add: scalar_hand_snapshot scalar_zero_trackingState)
  from f a b show ?thesis by simp
qed

lemma completes_xreturn: "completes (xreturn v)"
  by (simp add: completes_def xreturn_def)

lemma completes_xbind: "completes m \<Longrightarrow> (\<And>v. completes (f v)) \<Longrightarrow> completes (xbind m f)"
  unfolding completes_def xbind_def
  by (metis (mono_tags, lifting) case_prod_conv sum.case(2))

lemma completes_xseq: "completes m \<Longrightarrow> completes n \<Longrightarrow> completes (xseq m n)"
  unfolding xseq_def by (rule completes_xbind)

lemmas completes_simps = completes_def actions_ok_def xr_run set_handScale_def case_prod_beta

lemma completes_blocks:
  assumes "actions_ok rt"
  shows "completes (poll_grab rt hand)"
    and "completes (poll_quit rt hand)"
    and "completes (poll_scale_button rt a hand pressedScale pressed released)"
    and "completes (poll_home cc rt hand trackingState)"
    and "completes (poll_back rt hand ret)"
    and "completes (poll_scalar rt a hand analog trackingState)"
    and "completes (poll_joystick cc rt hand trackingState)"
    and "completes (poll_battery rt hand)"
    and "completes (poll_touch rt a hand message)"
    and "completes (poll_trigger_touch cc rt hand trackingState)"
    and "completes (poll_button rt a hand pressedScale button pressed released trackingState)"
    and "completes (poll_pose rt hand)"
  using assms
  by (auto simp: completes_simps poll_grab_def poll_quit_def poll_scale_button_def poll_home_def
        poll_back_def poll_scalar_def poll_joystick_def poll_battery_def poll_touch_def
        poll_trigger_touch_def poll_button_def poll_pose_def)

lemma completes_PollActions_hand:
  "actions_ok rt \<Longrightarrow> completes (PollActions_hand cc rt hand locals)"
  unfolding PollActions_hand_def case_prod_beta
  by (intro completes_xseq completes_xbind completes_xreturn completes_blocks)

lemma PollActions_completes:
  assumes "actions_ok rt"
  shows "\<exists>ret s'. PollActions cc rt s = (Inr ret, s')"
proof -
  have "completes (PollActions_hands cc rt [LEFT, RIGHT] l)" for l
    unfolding PollActions_hands.simps
    by (intro completes_xbind completes_xreturn completes_PollActions_hand assms)
  moreover have "completes (xmodify f)" "completes (emit c)" "completes xget"
      "completes (CHECK_XRCMD (xrSyncActions_result rt) w)"
      "completes (if b then emit c else xreturn ())" for f c w b
    using assms by (simp_all add: completes_simps)
  ultimately have "completes (PollActions cc rt)"
    unfolding PollActions_def case_prod_beta
    by (intro completes_xseq completes_xbind completes_xreturn)
  then show ?thesis by (simp add: completes_def)
qed

lemma PollActions_runs:
  assumes "actions_ok rt"
  shows "PollActions cc rt s =
     (Inr (released_now rt backAction LEFT \<or> released_now rt backAction RIGHT),
      snd (PollActions cc rt s))"
proof -
  from PollActions_completes [OF assms] obtain ret s' where r: "PollActions cc rt s = (Inr ret, s')"
    by blast
  with PollActions_Inr [OF r] show ?thesis by simp
qed

lemmas reply_defs = idle_action_replies_def pressed_replies_def held_replies_def released_replies_def

lemma example_actions_ok:
  "actions_ok idle_action_replies" "actions_ok pressed_replies"
  "actions_ok held_replies" "actions_ok released_replies"
  by (simp_all add: actions_ok_def reply_defs XR_FAILED_def)

lemma press_runs:
  "\<exists>ret. PollActions cloudxr_constants pressed_replies example_program = (Inr ret, after_press)"
  using PollActions_runs [OF example_actions_ok(2)] by (auto simp: after_press_def)

lemma hold_runs:
  "\<exists>ret. PollActions cloudxr_constants held_replies after_press = (Inr ret, after_hold)"
  using PollActions_runs [OF example_actions_ok(3)] by (auto simp: after_hold_def)

lemma idle_runs:
  "\<exists>ret. PollActions cloudxr_constants idle_action_replies after_press = (Inr ret, after_idle)"
  using PollActions_runs [OF example_actions_ok(1)] by (auto simp: after_idle_def)

lemma release_runs:
  "\<exists>ret. PollActions cloudxr_constants released_replies after_hold = (Inr ret, after_release)"
  using PollActions_runs [OF example_actions_ok(4)] by (auto simp: after_release_def)

lemma example_cloudxr: "m_cloudxr example_program" "m_cloudxr after_press" "m_cloudxr after_hold"
proof -
  show 1: "m_cloudxr example_program" by (simp add: example_program_def)
  from press_runs obtain r where "PollActions cloudxr_constants pressed_replies example_program = (Inr r, after_press)"
    by blast
  from PollActions_Inr [OF this] 1 show 2: "m_cloudxr after_press" by simp
  from hold_runs obtain r where "PollActions cloudxr_constants held_replies after_press = (Inr r, after_hold)"
    by blast
  from PollActions_Inr [OF this] 2 show "m_cloudxr after_hold" by simp
qed

text \<open>
  The A button of the right hand is pressed on the first tick and held on the second: the
  bit is set in the first snapshot and clear in the second.
\<close>

theorem button_bit_set_only_on_rising_edge_witness:
  "m_cloudxr example_program \<and> m_cloudxr after_press
   \<and> (RIGHT = LEFT \<or> RIGHT = RIGHT)
   \<and> (\<exists>ret. PollActions cloudxr_constants pressed_replies example_program = (Inr ret, after_press))
   \<and> isActive (snd (xrGetActionStateBoolean_reply pressed_replies AAction RIGHT)) = XR_TRUE
   \<and> changedSinceLastSync (snd (xrGetActionStateBoolean_reply pressed_replies AAction RIGHT)) = XR_TRUE
   \<and> currentState (snd (xrGetActionStateBoolean_reply pressed_replies AAction RIGHT)) = XR_TRUE
   \<and> bit (booleanComps (controller (hd (forwarded_snapshots example_program after_press)) RIGHT))
        (cxrButton_A cloudxr_constants)
   \<and> (\<exists>ret. PollActions cloudxr_constants held_replies after_press = (Inr ret, after_hold))
   \<and> isActive (snd (xrGetActionStateBoolean_reply held_replies AAction RIGHT)) = XR_TRUE
   \<and> changedSinceLastSync (snd (xrGetActionStateBoolean_reply held_replies AAction RIGHT)) = XR_FALSE
   \<and> currentState (snd (xrGetActionStateBoolean_reply held_replies AAction RIGHT)) = XR_TRUE
   \<and> \<not> bit (booleanComps (controller (hd (forwarded_snapshots after_press after_hold)) RIGHT))
          (cxrButton_A cloudxr_constants)"
proof -
  from press_runs obtain r1 where
    p: "PollActions cloudxr_constants pressed_replies example_program = (Inr r1, after_press)"
    by blast
  from hold_runs obtain r2 where
    h: "PollActions cloudxr_constants held_replies after_press = (Inr r2, after_hold)"
    by blast
  have hand: "RIGHT = LEFT \<or> RIGHT = RIGHT" by simp
  have replies:
    "isActive (snd (xrGetActionStateBoolean_reply pressed_replies AAction RIGHT)) = XR_TRUE"
    "changedSinceLastSync (snd (xrGetActionStateBoolean_reply pressed_replies AAction RIGHT)) = XR_TRUE"
    "currentState (snd (xrGetActionStateBoolean_reply pressed_replies AAction RIGHT)) = XR_TRUE"
    "isActive (snd (xrGetActionStateBoolean_reply held_replies AAction RIGHT)) = XR_TRUE"
    "changedSinceLastSync (snd (xrGetActionStateBoolean_reply held_replies AAction RIGHT)) = XR_FALSE"
    "currentState (snd (xrGetActionStateBoolean_reply held_replies AAction RIGHT)) = XR_TRUE"
    by (simp_all add: reply_defs RIGHT_def XR_TRUE_def XR_FALSE_def)
  have pressed: "cxrButton_A cloudxr_constants < 64
      \<and> (\<exists>(a, button) \<in> set (button_controls cloudxr_constants).
            button = cxrButton_A cloudxr_constants
            \<and> isActive (snd (xrGetActionStateBoolean_reply pressed_replies a RIGHT)) = XR_TRUE
            \<and> changedSinceLastSync (snd (xrGetActionStateBoolean_reply pressed_replies a RIGHT)) = XR_TRUE
            \<and> currentState (snd (xrGetActionStateBoolean_reply pressed_replies a RIGHT)) = XR_TRUE)"
    by (simp add: button_controls_def cloudxr_constants_def reply_defs RIGHT_def XR_TRUE_def)
  have held: "\<not> (\<exists>(a, button) \<in> set (button_controls cloudxr_constants).
            button = cxrButton_A cloudxr_constants
            \<and> isActive (snd (xrGetActionStateBoolean_reply held_replies a RIGHT)) = XR_TRUE
            \<and> changedSinceLastSync (snd (xrGetActionStateBoolean_reply held_replies a RIGHT)) = XR_TRUE
            \<and> currentState (snd (xrGetActionStateBoolean_reply held_replies a RIGHT)) = XR_TRUE)"
    by (simp add: button_controls_def cloudxr_constants_def reply_defs RIGHT_def XR_TRUE_def)
  from button_bit_set_only_on_rising_edge [OF p example_cloudxr(1) hand]
  obtain ts1 where ts1: "forwarded_snapshots example_program after_press = [ts1]"
    and b1: "\<And>b. bit (booleanComps (controller ts1 RIGHT)) b \<longleftrightarrow>
                 b < 64
                 \<and> (\<exists>(a, button) \<in> set (button_controls cloudxr_constants). button = b
                      \<and> isActive (snd (xrGetActionStateBoolean_reply pressed_replies a RIGHT)) = XR_TRUE
                      \<and> changedSinceLastSync (snd (xrGetActionStateBoolean_reply pressed_replies a RIGHT)) = XR_TRUE
                      \<and> currentState (snd (xrGetActionStateBoolean_reply pressed_replies a RIGHT)) = XR_TRUE)"
    by blast
  from button_bit_set_only_on_rising_edge [OF h example_cloudxr(2) hand]
  obtain ts2 where ts2: "forwarded_snapshots after_press after_hold = [ts2]"
    and b2: "\<And>b. bit (booleanComps (controller ts2 RIGHT)) b \<longleftrightarrow>
                 b < 64
                 \<and> (\<exists>(a, button) \<in> set (button_controls cloudxr_constants). button = b
                      \<and> isActive (snd (xrGetActionStateBoolean_reply held_replies a RIGHT)) = XR_TRUE
                      \<and> changedSinceLastSync (snd (xrGetActionStateBoolean_reply held_replies a RIGHT)) = XR_TRUE
                      \<and> currentState (snd (xrGetActionStateBoolean_reply held_replies a RIGHT)) = XR_TRUE)"
    by blast
  have 1: "bit (booleanComps (controller (hd (forwarded_snapshots example_program after_press)) RIGHT))
        (cxrButton_A cloudxr_constants)"
    unfolding ts1 list.sel b1 by (rule pressed)
  have 2: "\<not> bit (booleanComps (controller (hd (forwarded_snapshots after_press after_hold)) RIGHT))
        (cxrButton_A cloudxr_constants)"
    unfolding ts2 list.sel b2 using held by blast
  from p h hand replies 1 2 example_cloudxr show ?thesis
    by blast
qed

text \<open>
  The back button is pressed on one tick, held on the next and released on the third:
  \<^verbatim>\<open>PollActions\<close> returns false, false and true.
\<close>

theorem PollActions_returns_back_release_witness:
  "PollActions cloudxr_constants pressed_replies example_program = (Inr False, after_press)
   \<and> PollActions cloudxr_constants held_replies after_press = (Inr False, after_hold)
   \<and> PollActions cloudxr_constants released_replies after_hold = (Inr True, after_release)"
proof -
  from press_runs obtain r1 where
    p: "PollActions cloudxr_constants pressed_replies example_program = (Inr r1, after_press)"
    by blast
  from hold_runs obtain r2 where
    h: "PollActions cloudxr_constants held_replies after_press = (Inr r2, after_hold)"
    by blast
  from release_runs obtain r3 where
    r: "PollActions cloudxr_constants released_replies after_hold = (Inr r3, after_release)"
    by blast
  have "\<not> r1"
    using PollActions_returns_back_release [OF p]
    by (simp add: reply_defs LEFT_def RIGHT_def XR_TRUE_def)
  moreover have "\<not> r2"
    using PollActions_returns_back_release [OF h]
    by (simp add: reply_defs LEFT_def RIGHT_def XR_TRUE_def)
  moreover have "r3"
    using PollActions_returns_back_release [OF r]
    by (simp add: reply_defs LEFT_def RIGHT_def XR_TRUE_def)
  ultimately show ?thesis
    using p h r by simp
qed

text \<open>
  On the tick after the press every control is inactive: the slot of the right trigger is
  zero and the bit of the right A button is clear.
\<close>

theorem inactive_control_is_zero_in_snapshot_witness:
  "m_cloudxr after_press
   \<and> (RIGHT = LEFT \<or> RIGHT = RIGHT)
   \<and> (\<exists>ret. PollActions cloudxr_constants idle_action_replies after_press = (Inr ret, after_idle))
   \<and> map fst (analog_controls cloudxr_constants idle_action_replies RIGHT) =
        [False, False, False, False]
   \<and> scalarComps (controller (hd (forwarded_snapshots after_press after_idle)) RIGHT)
        (cxrAnalog_Trigger cloudxr_constants) = 0
   \<and> map (\<lambda>(a, button). isActive (snd (xrGetActionStateBoolean_reply idle_action_replies a RIGHT)))
        (button_controls cloudxr_constants) =
        [XR_FALSE, XR_FALSE, XR_FALSE, XR_FALSE, XR_FALSE, XR_FALSE]
   \<and> \<not> bit (booleanComps (controller (hd (forwarded_snapshots after_press after_idle)) RIGHT))
          (cxrButton_A cloudxr_constants)"
proof -
  from idle_runs obtain r where
    i: "PollActions cloudxr_constants idle_action_replies after_press = (Inr r, after_idle)"
    by blast
  have hand: "RIGHT = LEFT \<or> RIGHT = RIGHT" by simp
  have inactive:
    "map fst (analog_controls cloudxr_constants idle_action_replies RIGHT) =
        [False, False, False, False]"
    "map (\<lambda>(a, button). isActive (snd (xrGetActionStateBoolean_reply idle_action_replies a RIGHT)))
        (button_controls cloudxr_constants) =
        [XR_FALSE, XR_FALSE, XR_FALSE, XR_FALSE, XR_FALSE, XR_FALSE]"
    by (simp_all add: analog_controls_def button_controls_def reply_defs XR_TRUE_def XR_FALSE_def)
  have analog: "\<forall>(active, analog) \<in> set (analog_controls cloudxr_constants idle_action_replies RIGHT).
         analog = cxrAnalog_Trigger cloudxr_constants \<longrightarrow> \<not> active"
    by (simp add: analog_controls_def reply_defs XR_TRUE_def)
  have button: "\<forall>(a, button) \<in> set (button_controls cloudxr_constants).
         button = cxrButton_A cloudxr_constants \<longrightarrow>
         isActive (snd (xrGetActionStateBoolean_reply idle_action_replies a RIGHT)) \<noteq> XR_TRUE"
    by (simp add: button_controls_def reply_defs XR_TRUE_def)
  from inactive_control_is_zero_in_snapshot [OF i example_cloudxr(2) hand]
  obtain ts where ts: "forwarded_snapshots after_press after_idle = [ts]"
    and a: "\<And>slot. (\<forall>(active, analog) \<in> set (analog_controls cloudxr_constants idle_action_replies RIGHT).
                           analog = slot \<longrightarrow> \<not> active) \<Longrightarrow>
                 scalarComps (controller ts RIGHT) slot = 0"
    and b: "\<And>b. (\<forall>(a, button) \<in> set (button_controls cloudxr_constants). button = b \<longrightarrow>
                        isActive (snd (xrGetActionStateBoolean_reply idle_action_replies a RIGHT)) \<noteq> XR_TRUE) \<Longrightarrow>
                 \<not> bit (booleanComps (controller ts RIGHT)) b"
    by blast
  have 1: "scalarComps (controller (hd (forwarded_snapshots after_press after_idle)) RIGHT)
          (cxrAnalog_Trigger cloudxr_constants) = 0"
    unfolding ts list.sel by (rule a [OF analog])
  have 2: "\<not> bit (booleanComps (controller (hd (forwarded_snapshots after_press after_idle)) RIGHT))
            (cxrButton_A cloudxr_constants)"
    unfolding ts list.sel by (rule b [OF button])
  from i hand inactive example_cloudxr(2) 1 2 show ?thesis
    by blast
qed

text \<open>
  C10 as it is worded fails. On the first tick the right trigger is active at 3/4 and the
  right A button is pressed: the snapshot holds 3/4 and the A bit. On the second tick both
  are inactive: the snapshot forwarded holds 0 and a clear bit, not the values of the
  first tick.
\<close>

theorem inactive_control_counterexample:
  "scalarComps (controller (hd (forwarded_snapshots example_program after_press)) RIGHT)
        (cxrAnalog_Trigger cloudxr_constants) = 3/4
   \<and> bit (booleanComps (controller (hd (forwarded_snapshots example_program after_press)) RIGHT))
        (cxrButton_A cloudxr_constants)
   \<and> isActive (snd (xrGetActionStateFloat_reply idle_action_replies triggerAction RIGHT)) = XR_FALSE
   \<and> isActive (snd (xrGetActionStateBoolean_reply idle_action_replies AAction RIGHT)) = XR_FALSE
   \<and> length (forwarded_snapshots after_press after_idle) = 1
   \<and> scalarComps (controller (hd (forwarded_snapshots after_press after_idle)) RIGHT)
        (cxrAnalog_Trigger cloudxr_constants) = 0
   \<and> \<not> bit (booleanComps (controller (hd (forwarded_snapshots after_press after_idle)) RIGHT))
          (cxrButton_A cloudxr_constants)"
proof -
  from press_runs obtain r1 where
    p: "PollActions cloudxr_constants pressed_replies example_program = (Inr r1, after_press)"
    by blast
  from idle_runs obtain r2 where
    i: "PollActions cloudxr_constants idle_action_replies after_press = (Inr r2, after_idle)"
    by blast
  have f1: "forwarded_snapshots example_program after_press =
      [hand_snapshot cloudxr_constants pressed_replies RIGHT
         (hand_snapshot cloudxr_constants pressed_replies LEFT zero_trackingState)]"
    using PollActions_Inr [OF p] example_cloudxr(1) by simp
  have f2: "forwarded_snapshots after_press after_idle =
      [hand_snapshot cloudxr_constants idle_action_replies RIGHT
         (hand_snapshot cloudxr_constants idle_action_replies LEFT zero_trackingState)]"
    using PollActions_Inr [OF i] example_cloudxr(2) by simp
  show ?thesis
    unfolding f1 f2
    by (simp add: hand_snapshot_def snapshot_simps bit_zero_trackingState scalar_zero_trackingState
          pressed_now_def float_active_def joystick_active_def reply_defs cloudxr_constants_def
          LEFT_def RIGHT_def XR_TRUE_def XR_FALSE_def)
qed

end
